theory Spec2Isabelle
  imports Complex_Main
begin

section \<open>Values: Python exceptions and floating-point pixels\<close>

text \<open>
  The stages of \<^verbatim>\<open>sclassifier/preprocessing.py\<close> either return an array, return
  \<^verbatim>\<open>None\<close>, or raise. A call is therefore modelled with the result type
  \<open>error + tensor option\<close>: \<open>Inl e\<close> is the exception \<open>e\<close> leaving the call,
  \<open>Inr None\<close> is the returned \<^verbatim>\<open>None\<close>, \<open>Inr (Some t)\<close> is a returned array.
\<close>

datatype error = AttributeError | NameError | ValueError | IndexError | TypeError

text \<open>
  A pixel is a float. Finite floats are modelled by real numbers (rounding, overflow and
  the sign of zero are not modelled); the three non-finite floats are kept apart,
  because the masking convention of the module tests for them.
\<close>

datatype px = Fin real | PInf | NInf | NaN

fun isfinite :: "px \<Rightarrow> bool" where
  "isfinite (Fin x) = True"
| "isfinite PInf = False"
| "isfinite NInf = False"
| "isfinite NaN = False"

text \<open>\<^verbatim>\<open>data == 0\<close> and \<^verbatim>\<open>data != 0\<close>; every comparison with NaN but \<^verbatim>\<open>!=\<close> is false.\<close>

fun px_eq0 :: "px \<Rightarrow> bool" where
  "px_eq0 (Fin x) = (x = 0)"
| "px_eq0 PInf = False"
| "px_eq0 NInf = False"
| "px_eq0 NaN = False"

definition px_ne0 :: "px \<Rightarrow> bool" where
  "px_ne0 p = (\<not> px_eq0 p)"

text \<open>\<^verbatim>\<open>np.logical_and(data!=0, np.isfinite(data))\<close>, the validity mask of the module.\<close>

definition valid :: "px \<Rightarrow> bool" where
  "valid p = (px_ne0 p \<and> isfinite p)"

fun px_lt :: "px \<Rightarrow> px \<Rightarrow> bool" where
  "px_lt NaN q = False"
| "px_lt p NaN = False"
| "px_lt (Fin x) (Fin y) = (x < y)"
| "px_lt PInf q = False"
| "px_lt p NInf = False"
| "px_lt NInf q = True"
| "px_lt (Fin x) PInf = True"

definition px_gt :: "px \<Rightarrow> px \<Rightarrow> bool" where
  "px_gt p q = px_lt q p"

fun px_le :: "px \<Rightarrow> px \<Rightarrow> bool" where
  "px_le NaN q = False"
| "px_le p NaN = False"
| "px_le p q = (\<not> px_lt q p)"

fun px_neg :: "px \<Rightarrow> px" where
  "px_neg (Fin x) = Fin (- x)"
| "px_neg PInf = NInf"
| "px_neg NInf = PInf"
| "px_neg NaN = NaN"

fun px_add :: "px \<Rightarrow> px \<Rightarrow> px" where
  "px_add NaN q = NaN"
| "px_add p NaN = NaN"
| "px_add (Fin x) (Fin y) = Fin (x + y)"
| "px_add PInf NInf = NaN"
| "px_add NInf PInf = NaN"
| "px_add PInf q = PInf"
| "px_add NInf q = NInf"
| "px_add (Fin x) q = q"

definition px_sub :: "px \<Rightarrow> px \<Rightarrow> px" where
  "px_sub p q = px_add p (px_neg q)"

fun px_mul :: "px \<Rightarrow> px \<Rightarrow> px" where
  "px_mul NaN q = NaN"
| "px_mul p NaN = NaN"
| "px_mul (Fin x) (Fin y) = Fin (x * y)"
| "px_mul (Fin x) q = (if x = 0 then NaN else if 0 < x then q else px_neg q)"
| "px_mul p (Fin y) = (if y = 0 then NaN else if 0 < y then p else px_neg p)"
| "px_mul PInf q = q"
| "px_mul NInf q = px_neg q"

text \<open>
  Division as numpy does it on floats: a finite nonzero value over zero is an infinity
  (of the sign of the numerator, the sign of the zero being left out of the model),
  zero over zero and infinity over infinity are NaN.
\<close>

fun px_div :: "px \<Rightarrow> px \<Rightarrow> px" where
  "px_div NaN q = NaN"
| "px_div p NaN = NaN"
| "px_div (Fin x) (Fin y) =
     (if y \<noteq> 0 then Fin (x / y) else if x = 0 then NaN else if 0 < x then PInf else NInf)"
| "px_div (Fin x) q = Fin 0"
| "px_div p (Fin y) = (if 0 \<le> y then p else px_neg p)"
| "px_div p q = NaN"

text \<open>\<^verbatim>\<open>np.log10\<close>.\<close>

fun px_log10 :: "px \<Rightarrow> px" where
  "px_log10 (Fin x) = (if 0 < x then Fin (log 10 x) else if x = 0 then NInf else NaN)"
| "px_log10 PInf = PInf"
| "px_log10 NInf = NaN"
| "px_log10 NaN = NaN"

section \<open>Image tensors\<close>

text \<open>
  A numpy array of shape \<open>(ny, nx, nchans)\<close>: its shape and its elements by index
  \<open>(row, column, channel)\<close>. Only the elements inside the shape are meaningful.
\<close>

record tensor =
  ny :: nat
  nx :: nat
  nchans :: nat
  pix :: "nat \<Rightarrow> nat \<Rightarrow> nat \<Rightarrow> px"

type_synonym chan = "nat \<Rightarrow> nat \<Rightarrow> px"

definition of_lists :: "nat \<Rightarrow> nat \<Rightarrow> nat \<Rightarrow> px list list list \<Rightarrow> tensor" where
  "of_lists h w n xs = \<lparr>ny = h, nx = w, nchans = n, pix = (\<lambda>r c k. xs ! r ! c ! k)\<rparr>"

text \<open>\<^verbatim>\<open>data[:,:,i]\<close> read as a 2-D array, and \<^verbatim>\<open>data[:,:,i]= ch\<close>.\<close>

definition get_chan :: "tensor \<Rightarrow> nat \<Rightarrow> chan" where
  "get_chan t i = (\<lambda>r c. pix t r c i)"

definition set_chan :: "tensor \<Rightarrow> nat \<Rightarrow> chan \<Rightarrow> tensor" where
  "set_chan t i ch = t\<lparr>pix := (\<lambda>r c k. if k = i then ch r c else pix t r c k)\<rparr>"

text \<open>The elements of a 2-D array of the given shape, in row-major order.\<close>

definition flat :: "nat \<Rightarrow> nat \<Rightarrow> chan \<Rightarrow> px list" where
  "flat h w ch = concat (map (\<lambda>r. map (\<lambda>c. ch r c) [0..<w]) [0..<h])"

fun valid_val :: "px \<Rightarrow> real option" where
  "valid_val (Fin x) = (if x \<noteq> 0 then Some x else None)"
| "valid_val PInf = None"
| "valid_val NInf = None"
| "valid_val NaN = None"

text \<open>\<^verbatim>\<open>data_ch[cond]\<close> with \<^verbatim>\<open>cond= np.logical_and(data_ch!=0, np.isfinite(data_ch))\<close>.\<close>

definition valid_1d :: "nat \<Rightarrow> nat \<Rightarrow> chan \<Rightarrow> real list" where
  "valid_1d h w ch = List.map_filter valid_val (flat h w ch)"

text \<open>
  \<^verbatim>\<open>a.min()\<close> and \<^verbatim>\<open>a.max()\<close> of a 1-D array: numpy raises ValueError on an
  empty array.
\<close>

definition np_min :: "real list \<Rightarrow> error + real" where
  "np_min xs = (case xs of [] \<Rightarrow> Inl ValueError | x # ys \<Rightarrow> Inr (fold min ys x))"

definition np_max :: "real list \<Rightarrow> error + real" where
  "np_max xs = (case xs of [] \<Rightarrow> Inl ValueError | x # ys \<Rightarrow> Inr (fold max ys x))"

text \<open>
  Python indexing of an axis of length \<open>n\<close> with an integer: negative indices count
  from the end, anything else out of range raises IndexError.
\<close>

definition py_index :: "nat \<Rightarrow> int \<Rightarrow> nat option" where
  "py_index n i =
     (if 0 \<le> i \<and> i < int n then Some (nat i)
      else if - int n \<le> i \<and> i < 0 then Some (nat (int n + i))
      else None)"

text \<open>
  \<^verbatim>\<open>for i in range(n): ...\<close> over a state, where the body may raise (\<open>Inl e\<close>),
  execute \<^verbatim>\<open>return None\<close> (\<open>Inr None\<close>) or fall through to the next iteration with
  the updated state.
\<close>

fun for_chans :: "nat list \<Rightarrow> (nat \<Rightarrow> 's \<Rightarrow> error + 's option) \<Rightarrow> 's \<Rightarrow> error + 's option" where
  "for_chans [] body s = Inr (Some s)"
| "for_chans (i # is) body s =
     (case body i s of
        Inl e \<Rightarrow> Inl e
      | Inr None \<Rightarrow> Inr None
      | Inr (Some s') \<Rightarrow> for_chans is body s')"

section \<open>ChanDivider\<close>

text \<open>
  \<^verbatim>\<open>ChanDivider.__call__\<close>. The arguments before \<open>data\<close> are the attributes set by
  the constructor. The last statement of the source, \<^verbatim>\<open>np.delete(data_norm, chref, axis=2)\<close>,
  reads the name \<^verbatim>\<open>chref\<close>, which is bound neither in the method nor in the module
  (the attribute is \<^verbatim>\<open>self.chref\<close>): evaluating it raises NameError.
\<close>

definition ChanDivider_body :: "int \<Rightarrow> chan \<Rightarrow> chan \<Rightarrow> nat \<Rightarrow> tensor \<Rightarrow> error + tensor option" where
  "ChanDivider_body chref data_ref data_denom i data_norm =
     (if int i = chref then Inr (Some (set_chan data_norm i data_ref))
      else
        let dn = (\<lambda>r c. px_div (pix data_norm r c i) (data_denom r c));
            dn = (\<lambda>r c. if \<not> valid (data_ref r c) then Fin 0 else dn r c)
        in Inr (Some (set_chan data_norm i dn)))"

text \<open>What one iteration of the loop writes into channel \<open>i\<close>, given what it found there.\<close>

definition ChanDivider_g :: "int \<Rightarrow> chan \<Rightarrow> chan \<Rightarrow> nat \<Rightarrow> chan \<Rightarrow> chan" where
  "ChanDivider_g chref data_ref data_denom i ch =
     (if int i = chref then data_ref
      else (\<lambda>r c. if \<not> valid (data_ref r c) then Fin 0 else px_div (ch r c) (data_denom r c)))"

definition ChanDivider_log :: "bool \<Rightarrow> real \<Rightarrow> real \<Rightarrow> nat \<Rightarrow> tensor \<Rightarrow> tensor \<Rightarrow> tensor" where
  "ChanDivider_log trim trim_min trim_max j data data_norm =
     (let data_transf = (\<lambda>r c k. if px_le (pix data_norm r c k) (Fin 0) then Fin 1 else pix data_norm r c k);
          data_transf = (\<lambda>r c k. px_log10 (data_transf r c k));
          data_transf = (\<lambda>r c k. if \<not> valid (pix data r c k) then Fin 0 else data_transf r c k);
          data_transf =
            (if trim then
               let t1 = (\<lambda>r c k. if px_gt (data_transf r c k) (Fin trim_max) then Fin trim_max else data_transf r c k)
               in (\<lambda>r c k. if px_lt (t1 r c k) (Fin trim_min) then Fin trim_min else t1 r c k)
             else data_transf)
      in set_chan (data_norm\<lparr>pix := data_transf\<rparr>) j (get_chan data_norm j))"

definition ChanDivider_call ::
  "int \<Rightarrow> bool \<Rightarrow> bool \<Rightarrow> bool \<Rightarrow> real \<Rightarrow> real \<Rightarrow> tensor option \<Rightarrow> error + tensor option" where
  "ChanDivider_call chref logtransf strip_chref trim trim_min trim_max data_in =
     (case data_in of
        None \<Rightarrow> Inr None
      | Some data \<Rightarrow>
          (case py_index (nchans data) chref of
             None \<Rightarrow> Inl IndexError
           | Some j \<Rightarrow>
               let data_ref = get_chan data j;
                   data_denom = (\<lambda>r c. if px_eq0 (data_ref r c) then Fin 1 else data_ref r c)
               in (case for_chans [0..<nchans data] (ChanDivider_body chref data_ref data_denom) data of
                     Inl e \<Rightarrow> Inl e
                   | Inr None \<Rightarrow> Inr None
                   | Inr (Some data_norm) \<Rightarrow>
                       let data_norm = data_norm\<lparr>pix :=
                             (\<lambda>r c k. if \<not> valid (pix data r c k) then Fin 0 else pix data_norm r c k)\<rparr>;
                           data_norm = (if logtransf
                                        then ChanDivider_log trim trim_min trim_max j data data_norm
                                        else data_norm)
                       in if strip_chref then Inl NameError else Inr (Some data_norm))))"

text \<open>The input of the channel-divide scenario: one row of three pixels, two channels.\<close>

definition chandiv_example :: tensor where
  "chandiv_example = of_lists 1 3 2 [[[Fin 5, Fin 10], [Fin 5, Fin 0], [Fin 5, Fin 15]]]"

section \<open>MinMaxNormalizer\<close>

text \<open>
  \<^verbatim>\<open>MinMaxNormalizer.__call__\<close>: one iteration of the loop over the channels, and
  the call. A channel without a valid pixel makes the call return \<^verbatim>\<open>None\<close>.
\<close>

definition MinMaxNormalizer_body :: "real \<Rightarrow> real \<Rightarrow> tensor \<Rightarrow> nat \<Rightarrow> tensor \<Rightarrow> error + tensor option" where
  "MinMaxNormalizer_body norm_min norm_max data i data_norm =
     (let data_ch = get_chan data i;
          data_ch_1d = valid_1d (ny data) (nx data) data_ch
      in if length data_ch_1d = 0 then Inr None
         else
           (case np_min data_ch_1d of
              Inl e \<Rightarrow> Inl e
            | Inr data_ch_min \<Rightarrow>
                (case np_max data_ch_1d of
                   Inl e \<Rightarrow> Inl e
                 | Inr data_ch_max \<Rightarrow>
                     let data_ch_norm = (\<lambda>r c.
                           px_add (px_mul (px_div (px_sub (data_ch r c) (Fin data_ch_min))
                                                  (Fin (data_ch_max - data_ch_min)))
                                          (Fin (norm_max - norm_min)))
                                  (Fin norm_min));
                         data_ch_norm = (\<lambda>r c. if \<not> valid (data_ch r c) then Fin 0 else data_ch_norm r c)
                     in Inr (Some (set_chan data_norm i data_ch_norm)))))"

definition MinMaxNormalizer_call :: "real \<Rightarrow> real \<Rightarrow> tensor option \<Rightarrow> error + tensor option" where
  "MinMaxNormalizer_call norm_min norm_max data_in =
     (case data_in of
        None \<Rightarrow> Inr None
      | Some data \<Rightarrow> for_chans [0..<nchans data] (MinMaxNormalizer_body norm_min norm_max data) data)"

section \<open>MinShifter\<close>

text \<open>
  \<^verbatim>\<open>MinShifter.__call__\<close>. Unlike \<^verbatim>\<open>MinMaxNormalizer\<close>, the loop takes the minimum
  of the valid pixels without testing that there is one.
\<close>

definition MinShifter_body :: "int \<Rightarrow> tensor \<Rightarrow> nat \<Rightarrow> tensor \<Rightarrow> error + tensor option" where
  "MinShifter_body chid data i data_shifted =
     (if chid \<noteq> - 1 \<and> int i \<noteq> chid then Inr (Some data_shifted)
      else
        let data_ch = get_chan data i;
            data_ch_1d = valid_1d (ny data) (nx data) data_ch
        in (case np_min data_ch_1d of
              Inl e \<Rightarrow> Inl e
            | Inr data_ch_min \<Rightarrow>
                let data_ch_shifted = (\<lambda>r c. px_sub (data_ch r c) (Fin data_ch_min));
                    data_ch_shifted = (\<lambda>r c. if \<not> valid (data_ch r c) then Fin 0 else data_ch_shifted r c)
                in Inr (Some (set_chan data_shifted i data_ch_shifted))))"

definition MinShifter_call :: "int \<Rightarrow> tensor option \<Rightarrow> error + tensor option" where
  "MinShifter_call chid data_in =
     (case data_in of
        None \<Rightarrow> Inr None
      | Some data \<Rightarrow> for_chans [0..<nchans data] (MinShifter_body chid data) data)"

section \<open>Shifter, Standardizer, Scaler\<close>

text \<open>
  The three stages take per-channel parameter lists, which numpy broadcasts along the
  channel axis once their length has been checked against the channel count.
\<close>

definition Shifter_call :: "real list \<Rightarrow> tensor option \<Rightarrow> error + tensor option" where
  "Shifter_call offsets data_in =
     (case data_in of
        None \<Rightarrow> Inr None
      | Some data \<Rightarrow>
          let nchannels = nchans data; noffsets = length offsets
          in if noffsets \<le> 0 \<or> noffsets \<noteq> nchannels then Inr None
             else
               let data_shifted = (\<lambda>r c k. px_sub (pix data r c k) (Fin (offsets ! k)));
                   data_shifted = (\<lambda>r c k. if \<not> valid (pix data r c k) then Fin 0 else data_shifted r c k)
               in Inr (Some (data\<lparr>pix := data_shifted\<rparr>)))"

definition Standardizer_call :: "real list \<Rightarrow> real list \<Rightarrow> tensor option \<Rightarrow> error + tensor option" where
  "Standardizer_call means sigmas data_in =
     (case data_in of
        None \<Rightarrow> Inr None
      | Some data \<Rightarrow>
          let nchannels = nchans data; nmeans = length means
          in if nmeans \<le> 0 \<or> nmeans \<noteq> nchannels then Inr None
             else
               let nsigmas = length sigmas
               in if nsigmas \<le> 0 \<or> nsigmas \<noteq> nchannels then Inr None
                  else
                    let data_norm = (\<lambda>r c k. px_div (px_sub (pix data r c k) (Fin (means ! k))) (Fin (sigmas ! k)));
                        data_norm = (\<lambda>r c k. if \<not> valid (pix data r c k) then Fin 0 else data_norm r c k)
                    in Inr (Some (data\<lparr>pix := data_norm\<rparr>)))"

text \<open>
  \<^verbatim>\<open>Scaler.__init__\<close> executes \<^verbatim>\<open>self.scale_factors= self.scale_factors\<close>: it reads
  the attribute of the object under construction before anything has set it. The
  attributes of the new object are a dictionary, empty when the constructor starts.
\<close>

definition getattr :: "(string \<rightharpoonup> 'v) \<Rightarrow> string \<Rightarrow> error + 'v" where
  "getattr self name = (case self name of None \<Rightarrow> Inl AttributeError | Some v \<Rightarrow> Inr v)"

definition Scaler_init :: "real list \<Rightarrow> error + (string \<rightharpoonup> real list)" where
  "Scaler_init scale_factors =
     (let self = Map.empty
      in case getattr self ''scale_factors'' of
           Inl e \<Rightarrow> Inl e
         | Inr v \<Rightarrow> Inr (self(''scale_factors'' \<mapsto> v)))"

text \<open>
  \<^verbatim>\<open>Scaler.__call__\<close> on an object whose attribute \<^verbatim>\<open>scale_factors\<close> holds the given
  list. The product is returned as it is: the method has no mask restoration.
\<close>

definition Scaler_call :: "real list \<Rightarrow> tensor option \<Rightarrow> error + tensor option" where
  "Scaler_call scale_factors data_in =
     (case data_in of
        None \<Rightarrow> Inr None
      | Some data \<Rightarrow>
          let nchannels = nchans data; nscales = length scale_factors
          in if nscales \<le> 0 \<or> nscales \<noteq> nchannels then Inr None
             else
               let data_scaled = (\<lambda>r c k. px_mul (pix data r c k) (Fin (scale_factors ! k)))
               in Inr (Some (data\<lparr>pix := data_scaled\<rparr>)))"

section \<open>LogStretcher\<close>

fun pos_val :: "px \<Rightarrow> real option" where
  "pos_val (Fin x) = (if 0 < x then Some x else None)"
| "pos_val PInf = None"
| "pos_val NInf = None"
| "pos_val NaN = None"

text \<open>
  \<^verbatim>\<open>LogStretcher.__call__\<close>. \<^verbatim>\<open>np.log10(data_ch, where=cond_ch)\<close> leaves the elements
  outside \<^verbatim>\<open>cond_ch\<close> as the fresh output buffer had them: \<open>uninit\<close> stands for that
  content. The assignment of zero to the bad pixels is inside the \<^verbatim>\<open>if self.minmaxnorm\<close>
  block of the source.
\<close>

definition LogStretcher_body ::
  "int \<Rightarrow> bool \<Rightarrow> real \<Rightarrow> real \<Rightarrow> bool \<Rightarrow> (nat \<Rightarrow> chan) \<Rightarrow> tensor \<Rightarrow> nat \<Rightarrow> tensor \<Rightarrow> error + tensor option" where
  "LogStretcher_body chid minmaxnorm data_norm_min data_norm_max clip_neg uninit data i data_transf =
     (if chid \<noteq> - 1 \<and> int i = chid then Inr (Some data_transf)
      else
        let data_ch = get_chan data i;
            badpix_cond = (\<lambda>r c. px_eq0 (data_ch r c) \<or> \<not> isfinite (data_ch r c));
            cond_ch = (\<lambda>r c. px_gt (data_ch r c) (Fin 0) \<and> isfinite (data_ch r c));
            data_ch_1d = List.map_filter pos_val (flat (ny data) (nx data) data_ch)
        in if length data_ch_1d \<le> 0 then Inr None
           else
             let data_ch_lg = (\<lambda>r c. if cond_ch r c then px_log10 (data_ch r c) else uninit i r c);
                 data_ch_lg_1d = map (log 10) data_ch_1d
             in (case np_min data_ch_lg_1d of
                   Inl e \<Rightarrow> Inl e
                 | Inr data_ch_lg_min \<Rightarrow>
                     let data_ch_lg = (\<lambda>r c. if \<not> cond_ch r c then Fin data_ch_lg_min else data_ch_lg r c);
                         data_ch_lg =
                           (if minmaxnorm then
                              let data_ch_lg_norm = (\<lambda>r c.
                                    px_div (px_sub (data_ch_lg r c) (Fin data_norm_min))
                                           (Fin (data_norm_max - data_norm_min)));
                                  data_ch_lg_norm =
                                    (if clip_neg
                                     then (\<lambda>r c. if px_lt (data_ch_lg_norm r c) (Fin 0) then Fin 0
                                                  else data_ch_lg_norm r c)
                                     else data_ch_lg_norm)
                              in (\<lambda>r c. if badpix_cond r c then Fin 0 else data_ch_lg_norm r c)
                            else data_ch_lg)
                     in Inr (Some (set_chan data_transf i data_ch_lg))))"

definition LogStretcher_call ::
  "int \<Rightarrow> bool \<Rightarrow> real \<Rightarrow> real \<Rightarrow> bool \<Rightarrow> (nat \<Rightarrow> chan) \<Rightarrow> tensor option \<Rightarrow> error + tensor option" where
  "LogStretcher_call chid minmaxnorm data_norm_min data_norm_max clip_neg uninit data_in =
     (case data_in of
        None \<Rightarrow> Inr None
      | Some data \<Rightarrow>
          for_chans [0..<nchans data]
            (LogStretcher_body chid minmaxnorm data_norm_min data_norm_max clip_neg uninit data) data)"

text \<open>
  The input of the log-stretch scenario: one channel with the pixels 0.01, 1, 100 and a
  masked pixel equal to 0.
\<close>

definition logstretch_example :: tensor where
  "logstretch_example = of_lists 1 4 1 [[[Fin (1 / 100)], [Fin 1], [Fin 100], [Fin 0]]]"

section \<open>SigmaClipper\<close>

text \<open>
  \<^verbatim>\<open>SigmaClipper.__clip\<close> and \<^verbatim>\<open>SigmaClipper.__call__\<close>. The bounds come from astropy's
  \<^verbatim>\<open>sigma_clip(data_1d, sigma_lower, sigma_upper, masked=True, return_bounds=True)\<close>,
  a library function outside the repository: it is the parameter \<open>sigma_clip\<close>, which
  returns the two bounds \<^verbatim>\<open>res[1]\<close> and \<^verbatim>\<open>res[2]\<close>.
\<close>

definition SigmaClipper_clip ::
  "(real list \<Rightarrow> real \<Rightarrow> real \<Rightarrow> px \<times> px) \<Rightarrow> real \<Rightarrow> real \<Rightarrow> nat \<Rightarrow> nat \<Rightarrow> chan \<Rightarrow> chan" where
  "SigmaClipper_clip sigma_clip sigma_low sigma_up h w data =
     (let data_1d = valid_1d h w data;
          res = sigma_clip data_1d sigma_low sigma_up;
          thr_low = fst res;
          thr_up = snd res;
          data_clipped = (\<lambda>r c. if px_lt (data r c) thr_low then thr_low else data r c);
          data_clipped = (\<lambda>r c. if px_gt (data_clipped r c) thr_up then thr_up else data_clipped r c)
      in (\<lambda>r c. if \<not> valid (data r c) then Fin 0 else data_clipped r c))"

definition SigmaClipper_body ::
  "(real list \<Rightarrow> real \<Rightarrow> real \<Rightarrow> px \<times> px) \<Rightarrow> real \<Rightarrow> real \<Rightarrow> int \<Rightarrow> tensor \<Rightarrow> nat \<Rightarrow> tensor \<Rightarrow> error + tensor option" where
  "SigmaClipper_body sigma_clip sigma_low sigma_up chid data i data_clipped =
     (if chid \<noteq> - 1 \<and> int i \<noteq> chid then Inr (Some data_clipped)
      else
        let data_ch_clipped = SigmaClipper_clip sigma_clip sigma_low sigma_up (ny data) (nx data) (get_chan data i)
        in Inr (Some (set_chan data_clipped i data_ch_clipped)))"

definition SigmaClipper_call ::
  "(real list \<Rightarrow> real \<Rightarrow> real \<Rightarrow> px \<times> px) \<Rightarrow> real \<Rightarrow> real \<Rightarrow> int \<Rightarrow> tensor option \<Rightarrow> error + tensor option" where
  "SigmaClipper_call sigma_clip sigma_low sigma_up chid data_in =
     (case data_in of
        None \<Rightarrow> Inr None
      | Some data \<Rightarrow>
          for_chans [0..<nchans data] (SigmaClipper_body sigma_clip sigma_low sigma_up chid data) data)"

text \<open>
  An input with a valid pixel in each of its two channels and a NaN pixel in the second
  one, and bounds that clip nothing.
\<close>

definition sigmaclip_example :: tensor where
  "sigmaclip_example = of_lists 1 2 2 [[[Fin 3, Fin 4], [Fin 0, NaN]]]"

definition no_clip :: "real list \<Rightarrow> real \<Rightarrow> real \<Rightarrow> px \<times> px" where
  "no_clip data_1d sigma_lower sigma_upper = (NInf, PInf)"

section \<open>ZScaleTransformer\<close>

text \<open>
  \<^verbatim>\<open>ZScaleTransformer.__call__\<close>. astropy's \<^verbatim>\<open>ZScaleInterval(contrast=c)\<close>, applied to
  a channel, is the parameter \<open>ZScaleInterval\<close>: it takes the contrast, the shape of
  the channel and the channel.
\<close>

definition ZScaleTransformer_body ::
  "(real \<Rightarrow> nat \<Rightarrow> nat \<Rightarrow> chan \<Rightarrow> chan) \<Rightarrow> real list \<Rightarrow> nat \<Rightarrow> tensor \<Rightarrow> error + tensor option" where
  "ZScaleTransformer_body ZScaleInterval contrasts i data_stretched =
     (let data_ch = get_chan data_stretched i;
          data_transf = ZScaleInterval (contrasts ! i) (ny data_stretched) (nx data_stretched) data_ch
      in Inr (Some (set_chan data_stretched i data_transf)))"

definition ZScaleTransformer_call ::
  "(real \<Rightarrow> nat \<Rightarrow> nat \<Rightarrow> chan \<Rightarrow> chan) \<Rightarrow> real list \<Rightarrow> tensor option \<Rightarrow> error + tensor option" where
  "ZScaleTransformer_call ZScaleInterval contrasts data_in =
     (case data_in of
        None \<Rightarrow> Inr None
      | Some data \<Rightarrow>
          let nchans' = nchans data
          in if length contrasts < nchans' then Inr None
             else
               (case for_chans [0..<nchans data] (ZScaleTransformer_body ZScaleInterval contrasts) data of
                  Inl e \<Rightarrow> Inl e
                | Inr None \<Rightarrow> Inr None
                | Inr (Some data_stretched) \<Rightarrow>
                    Inr (Some (data_stretched\<lparr>pix :=
                      (\<lambda>r c k. if \<not> valid (pix data r c k) then Fin 0 else pix data_stretched r c k)\<rparr>))))"

section \<open>ChanResizer\<close>

text \<open>
  \<^verbatim>\<open>ChanResizer.__call__\<close> on a 3-D array (the 2-D branch of the source is outside the
  tensor type). \<open>nchans_t\<close> is the attribute \<^verbatim>\<open>self.nchans\<close>; \<^verbatim>\<open>self.nchans_max\<close> is
  the constant 1000 of the constructor.
\<close>

definition nchans_max :: int where
  "nchans_max = 1000"

definition ChanResizer_body :: "bool \<Rightarrow> tensor \<Rightarrow> nat \<Rightarrow> tensor \<Rightarrow> error + tensor option" where
  "ChanResizer_body expanding data i data_resized =
     (let nchans_curr = nchans data
      in if expanding then
           (if i < nchans_curr then Inr (Some (set_chan data_resized i (get_chan data i)))
            else
              (case py_index nchans_curr (int nchans_curr - 1) of
                 None \<Rightarrow> Inl IndexError
               | Some l \<Rightarrow> Inr (Some (set_chan data_resized i (get_chan data l)))))
         else
           (case py_index nchans_curr (int i) of
              None \<Rightarrow> Inl IndexError
            | Some l \<Rightarrow> Inr (Some (set_chan data_resized i (get_chan data l)))))"

definition ChanResizer_call :: "int \<Rightarrow> tensor option \<Rightarrow> error + tensor option" where
  "ChanResizer_call nchans_t data_in =
     (case data_in of
        None \<Rightarrow> Inr None
      | Some data \<Rightarrow>
          if nchans_t > nchans_max \<or> nchans_t \<le> 0 then Inr None
          else
            let nchans_curr = nchans data
            in if nchans_t = int nchans_curr then Inr (Some data)
               else
                 let expanding = (nchans_t > int nchans_curr);
                     data_resized = \<lparr>ny = ny data, nx = nx data, nchans = nat nchans_t,
                                     pix = (\<lambda>r c k. Fin 0)\<rparr>
                 in for_chans [0..<nat nchans_t] (ChanResizer_body expanding data) data_resized)"

definition chanresize_example :: tensor where
  "chanresize_example = of_lists 1 1 2 [[[Fin 7, Fin 9]]]"

section \<open>Resizer and Augmenter\<close>

text \<open>
  \<^verbatim>\<open>Resizer.__call__\<close>. \<^verbatim>\<open>Utils.resize_img_v2\<close> (in \<^verbatim>\<open>utils.py\<close>, not part of the
  sources at hand) and skimage's \<^verbatim>\<open>img_as_float64\<close> are parameters. \<open>resize_img_v2\<close>
  takes the image, \<^verbatim>\<open>min_dim\<close>, \<^verbatim>\<open>max_dim\<close>, \<^verbatim>\<open>anti_aliasing\<close> and
  \<^verbatim>\<open>preserve_range\<close>, and gives the first component \<^verbatim>\<open>ret[0]\<close> of its result, or
  raises. The inner \<^verbatim>\<open>try\<close> retries on the converted image; the outer one turns any
  exception into \<^verbatim>\<open>None\<close>. A \<^verbatim>\<open>None\<close> image is only logged, so that the padding loop
  then reads \<^verbatim>\<open>data_resized.shape\<close> of \<^verbatim>\<open>None\<close>.
\<close>

definition Resizer_pad_body :: "nat \<Rightarrow> tensor \<Rightarrow> error + tensor option" where
  "Resizer_pad_body i data_resized =
     (let data_ch = get_chan data_resized i;
          data_ch_1d = valid_1d (ny data_resized) (nx data_resized) data_ch
      in (case np_min data_ch_1d of
            Inl e \<Rightarrow> Inl e
          | Inr data_min \<Rightarrow>
              let data_ch = (\<lambda>r c. if \<not> valid (data_ch r c) then Fin data_min else data_ch r c)
              in Inr (Some (set_chan data_resized i data_ch))))"

definition Resizer_call ::
  "(tensor \<Rightarrow> nat option \<Rightarrow> nat \<Rightarrow> bool \<Rightarrow> bool \<Rightarrow> error + tensor option) \<Rightarrow> (tensor \<Rightarrow> error + tensor) \<Rightarrow>
   nat \<Rightarrow> bool \<Rightarrow> bool \<Rightarrow> bool \<Rightarrow> bool \<Rightarrow> tensor option \<Rightarrow> error + tensor option" where
  "Resizer_call resize_img_v2 img_as_float64 resize_size preserve_range upscale
       downscale_with_antialiasing set_pad_val_to_min data_in =
     (case data_in of
        None \<Rightarrow> Inr None
      | Some data \<Rightarrow>
          let nx' = nx data; ny' = ny data;
              is_same_size = (nx' = resize_size \<and> ny' = resize_size)
          in if is_same_size then Inr (Some data)
             else
               let max_dim = resize_size;
                   min_dim = (if \<not> upscale then None else Some resize_size);
                   downscaling = (nx' > resize_size \<and> ny' > resize_size);
                   antialiasing = (downscaling \<and> downscale_with_antialiasing);
                   ret = (case resize_img_v2 data min_dim max_dim antialiasing preserve_range of
                            Inr r \<Rightarrow> Inr r
                          | Inl e \<Rightarrow>
                              (case img_as_float64 data of
                                 Inl e' \<Rightarrow> Inl e'
                               | Inr data64 \<Rightarrow> resize_img_v2 data64 min_dim max_dim antialiasing preserve_range))
               in (case ret of
                     Inl e \<Rightarrow> Inr None
                   | Inr data_resized_in \<Rightarrow>
                       if set_pad_val_to_min then
                         (case data_resized_in of
                            None \<Rightarrow> Inl AttributeError
                          | Some data_resized \<Rightarrow>
                              for_chans [0..<nchans data_resized] Resizer_pad_body data_resized)
                       else Inr data_resized_in))"

text \<open>
  \<^verbatim>\<open>Augmenter.__call__\<close>. The imgaug augmenter held by the object is the parameter
  \<open>augment_image\<close>; an exception of the library is caught and gives \<^verbatim>\<open>None\<close>.
\<close>

definition Augmenter_call :: "(tensor \<Rightarrow> error + tensor) \<Rightarrow> tensor option \<Rightarrow> error + tensor option" where
  "Augmenter_call augment_image data_in =
     (case data_in of
        None \<Rightarrow> Inr None
      | Some data \<Rightarrow>
          (case augment_image data of
             Inl e \<Rightarrow> Inr None
           | Inr data_aug \<Rightarrow> Inr (Some data_aug)))"

section \<open>BorderMasker and MaskShrinker, on a store of arrays\<close>

text \<open>
  Both stages write through the view \<^verbatim>\<open>data[:,:,i]\<close> of their argument. To see the
  effect on the caller's array, arrays live in a store under references; a view of a
  channel is the pair of the reference and the channel index, and a write through the
  view updates the array under the reference. \<^verbatim>\<open>np.copy\<close> allocates.
  A call returns the store it leaves behind together with its result.
\<close>

record heap =
  cells :: "nat \<Rightarrow> tensor"
  next_ref :: nat

definition np_copy :: "heap \<Rightarrow> nat \<Rightarrow> heap \<times> nat" where
  "np_copy h p = (h\<lparr>cells := (cells h)(next_ref h := cells h p), next_ref := Suc (next_ref h)\<rparr>, next_ref h)"

definition write_chan :: "heap \<Rightarrow> nat \<Rightarrow> nat \<Rightarrow> chan \<Rightarrow> heap" where
  "write_chan h p i ch = h\<lparr>cells := (cells h)(p := set_chan (cells h p) i ch)\<rparr>"

fun for_heap :: "nat list \<Rightarrow> (nat \<Rightarrow> heap \<Rightarrow> heap \<times> error option) \<Rightarrow> heap \<Rightarrow> heap \<times> error option" where
  "for_heap [] body h = (h, None)"
| "for_heap (i # is) body h =
     (case body i h of
        (h', Some e) \<Rightarrow> (h', Some e)
      | (h', None) \<Rightarrow> for_heap is body h')"

text \<open>\<^verbatim>\<open>int(x)\<close> of a float truncates towards zero.\<close>

definition py_int :: "real \<Rightarrow> int" where
  "py_int x = (if 0 \<le> x then \<lfloor>x\<rfloor> else \<lceil>x\<rceil>)"

text \<open>
  A slice bound \<open>a\<close> on an axis of length \<open>n\<close>: a negative bound counts from the end,
  and the result is clamped to the axis.
\<close>

definition slice_bound :: "nat \<Rightarrow> int \<Rightarrow> int" where
  "slice_bound n a = (if a < 0 then max (a + int n) 0 else min a (int n))"

definition in_slice :: "nat \<Rightarrow> int \<Rightarrow> int \<Rightarrow> nat \<Rightarrow> bool" where
  "in_slice n a b j = (slice_bound n a \<le> int j \<and> int j < slice_bound n b)"

text \<open>
  The array \<^verbatim>\<open>mask\<close> of \<^verbatim>\<open>BorderMasker.__call__\<close> for a channel of shape \<open>(h, w)\<close>:
  true where \<^verbatim>\<open>mask[ymin:ymax, xmin:xmax]= 1\<close> has written.
\<close>

definition border_mask :: "real \<Rightarrow> nat \<Rightarrow> nat \<Rightarrow> nat \<Rightarrow> nat \<Rightarrow> bool" where
  "border_mask mask_fract h w r c =
     (let xc = py_int (real w / 2);
          yc = py_int (real h / 2);
          dy = py_int (real h * mask_fract / 2);
          dx = py_int (real w * mask_fract / 2);
          xmin = xc - dx;
          xmax = xc + dx;
          ymin = yc - dy;
          ymax = yc + dy
      in in_slice h ymin ymax r \<and> in_slice w xmin xmax c)"

text \<open>
  \<^verbatim>\<open>BorderMasker.__call__\<close>: \<open>p\<close> is the reference of the argument, \<open>q\<close> the
  reference of \<^verbatim>\<open>data_masked\<close>.
\<close>

definition BorderMasker_body :: "real \<Rightarrow> nat \<Rightarrow> nat \<Rightarrow> nat \<Rightarrow> heap \<Rightarrow> heap \<times> error option" where
  "BorderMasker_body mask_fract p q i h =
     (let data = cells h p;
          data_ch = get_chan data i;
          data_ch_1d = valid_1d (ny data) (nx data) data_ch
      in (case np_min data_ch_1d of
            Inl e \<Rightarrow> (h, Some e)
          | Inr data_min \<Rightarrow>
              let mask = border_mask mask_fract (ny data) (nx data);
                  h = write_chan h p i (\<lambda>r c. if \<not> mask r c then Fin 0 else data_ch r c);
                  h = write_chan h q i (get_chan (cells h p) i)
              in (h, None)))"

definition BorderMasker_call :: "real \<Rightarrow> heap \<Rightarrow> nat option \<Rightarrow> heap \<times> (error + nat option)" where
  "BorderMasker_call mask_fract h data_in =
     (case data_in of
        None \<Rightarrow> (h, Inr None)
      | Some p \<Rightarrow>
          let (h, q) = np_copy h p
          in (case for_heap [0..<nchans (cells h p)] (BorderMasker_body mask_fract p q) h of
                (h, Some e) \<Rightarrow> (h, Inl e)
              | (h, None) \<Rightarrow> (h, Inr (Some q))))"

text \<open>
  \<^verbatim>\<open>MaskShrinker.__call__\<close>. \<open>erode\<close> stands for OpenCV's
  \<^verbatim>\<open>cv2.erode(mask, structel, iterations = 1)\<close> with the elliptic structuring element of
  size \<^verbatim>\<open>kernsize\<close>: it takes the shape and the 0/1 mask and returns the eroded mask.
\<close>

definition MaskShrinker_body ::
  "(nat \<Rightarrow> nat \<Rightarrow> (nat \<Rightarrow> nat \<Rightarrow> nat) \<Rightarrow> (nat \<Rightarrow> nat \<Rightarrow> nat)) \<Rightarrow> nat \<Rightarrow> nat \<Rightarrow> nat \<Rightarrow> heap \<Rightarrow> heap \<times> error option" where
  "MaskShrinker_body erode p q i h =
     (let data = cells h p;
          mask = (\<lambda>r c. if valid (pix data r c i) then 1 else 0);
          mask_eroded = erode (ny data) (nx data) mask;
          img_eroded = get_chan data i;
          h = write_chan h p i (\<lambda>r c. if mask_eroded r c = 0 then Fin 0 else img_eroded r c);
          h = write_chan h q i (get_chan (cells h p) i)
      in (h, None))"

definition MaskShrinker_call ::
  "(nat \<Rightarrow> nat \<Rightarrow> (nat \<Rightarrow> nat \<Rightarrow> nat) \<Rightarrow> (nat \<Rightarrow> nat \<Rightarrow> nat)) \<Rightarrow> heap \<Rightarrow> nat option \<Rightarrow> heap \<times> (error + nat option)" where
  "MaskShrinker_call erode h data_in =
     (case data_in of
        None \<Rightarrow> (h, Inr None)
      | Some p \<Rightarrow>
          let (h, q) = np_copy h p
          in (case for_heap [0..<nchans (cells h p)] (MaskShrinker_body erode p q) h of
                (h, Some e) \<Rightarrow> (h, Inl e)
              | (h, None) \<Rightarrow> (h, Inr (Some q))))"

text \<open>
  A store holding one 4 x 4 single-channel array of ones under reference 0, and an
  erosion that clears the first row of any mask.
\<close>

definition ones_heap :: heap where
  "ones_heap = \<lparr>cells = (\<lambda>p. \<lparr>ny = 4, nx = 4, nchans = 1, pix = (\<lambda>r c k. Fin 1)\<rparr>), next_ref = 1\<rparr>"

definition erode_first_row :: "nat \<Rightarrow> nat \<Rightarrow> (nat \<Rightarrow> nat \<Rightarrow> nat) \<Rightarrow> (nat \<Rightarrow> nat \<Rightarrow> nat)" where
  "erode_first_row h w m = (\<lambda>r c. if r = 0 then 0 else m r c)"

section \<open>DataPreprocessor\<close>

text \<open>
  The classes of the stages. \<^verbatim>\<open>DataPreprocessor\<close> uses two things of a stage object:
  its bound method \<^verbatim>\<open>__call__\<close>, and, through \<^verbatim>\<open>__self__\<close> of that bound method,
  whether the object is an instance of \<^verbatim>\<open>Augmenter\<close>. A stage object is therefore its
  class together with its call.
\<close>

datatype stage_class =
    MinMaxNormalizer | AbsMinMaxNormalizer | MaxScaler | AbsMaxScaler | ChanMaxScaler
  | MinShifter | Shifter | Standardizer | NegativeDataFixer | Scaler | LogStretcher
  | BorderMasker | BkgSubtractor | SigmaClipShifter | SigmaClipper | Resizer | ChanDivider
  | ZScaleTransformer | ChanResizer | Augmenter | MaskShrinker

record 'a stage =
  cls :: stage_class
  call :: "'a option \<Rightarrow> error + 'a option"

definition is_augmenter :: "'a stage \<Rightarrow> bool" where
  "is_augmenter f = (cls f = Augmenter)"

text \<open>
  Modelled from the spec: \<^verbatim>\<open>Utils.compose_fcns\<close> is defined in \<^verbatim>\<open>sclassifier/utils.py\<close>,
  which is not among the sources. \<^verbatim>\<open>DataPreprocessor.__init__\<close> reverses the stage
  list before the call because "fcn compose take functions in the opposite order": the
  first function given is applied last. Following the specification of the pipeline,
  the composed function returns failure as soon as a stage has returned failure,
  without calling the later stages; an exception of a stage leaves the composed call.
\<close>

fun compose_fcns :: "('a option \<Rightarrow> error + 'a option) list \<Rightarrow> 'a option \<Rightarrow> error + 'a option" where
  "compose_fcns [] x = Inr x"
| "compose_fcns (f # fs) x =
     (case compose_fcns fs x of
        Inl e \<Rightarrow> Inl e
      | Inr None \<Rightarrow> Inr None
      | Inr (Some y) \<Rightarrow> f (Some y))"

record 'a DataPreprocessor =
  fcns :: "'a stage list"
  pipeline :: "'a option \<Rightarrow> error + 'a option"

definition DataPreprocessor_init :: "'a stage list \<Rightarrow> 'a DataPreprocessor" where
  "DataPreprocessor_init stages =
     (let fcns = rev stages
      in \<lparr>fcns = fcns, pipeline = compose_fcns (map call fcns)\<rparr>)"

definition DataPreprocessor_call :: "'a DataPreprocessor \<Rightarrow> 'a option \<Rightarrow> error + 'a option" where
  "DataPreprocessor_call self data = pipeline self data"

text \<open>
  The loop of \<^verbatim>\<open>disable_augmentation\<close> over \<^verbatim>\<open>self.fcns\<close>, with its two variables
  \<^verbatim>\<open>recreate_pipeline\<close> and \<^verbatim>\<open>fcns_new\<close>.
\<close>

fun disable_scan :: "'a stage list \<Rightarrow> bool \<times> 'a stage list \<Rightarrow> bool \<times> 'a stage list" where
  "disable_scan [] acc = acc"
| "disable_scan (f # fs) (recreate_pipeline, fcns_new) =
     (if is_augmenter f then disable_scan fs (True, fcns_new)
      else disable_scan fs (recreate_pipeline, fcns_new @ [f]))"

definition disable_augmentation :: "'a DataPreprocessor \<Rightarrow> 'a DataPreprocessor" where
  "disable_augmentation self =
     (let (recreate_pipeline, fcns_new) = disable_scan (fcns self) (False, [])
      in if recreate_pipeline
         then self\<lparr>fcns := fcns_new, pipeline := compose_fcns (map call fcns_new)\<rparr>
         else self)"

text \<open>Stage objects of the classes used below, built from their calls.\<close>

definition Resizer_obj ::
  "(tensor \<Rightarrow> nat option \<Rightarrow> nat \<Rightarrow> bool \<Rightarrow> bool \<Rightarrow> error + tensor option) \<Rightarrow> (tensor \<Rightarrow> error + tensor) \<Rightarrow>
   nat \<Rightarrow> bool \<Rightarrow> bool \<Rightarrow> bool \<Rightarrow> bool \<Rightarrow> tensor stage" where
  "Resizer_obj resize_img_v2 img_as_float64 resize_size preserve_range upscale
       downscale_with_antialiasing set_pad_val_to_min =
     \<lparr>cls = Resizer,
      call = Resizer_call resize_img_v2 img_as_float64 resize_size preserve_range upscale
               downscale_with_antialiasing set_pad_val_to_min\<rparr>"

definition Augmenter_obj :: "(tensor \<Rightarrow> error + tensor) \<Rightarrow> tensor stage" where
  "Augmenter_obj augment_image = \<lparr>cls = Augmenter, call = Augmenter_call augment_image\<rparr>"

definition MinMaxNormalizer_obj :: "real \<Rightarrow> real \<Rightarrow> tensor stage" where
  "MinMaxNormalizer_obj norm_min norm_max =
     \<lparr>cls = MinMaxNormalizer, call = MinMaxNormalizer_call norm_min norm_max\<rparr>"

definition Shifter_obj :: "real list \<Rightarrow> tensor stage" where
  "Shifter_obj offsets = \<lparr>cls = Shifter, call = Shifter_call offsets\<rparr>"

definition ChanResizer_obj :: "int \<Rightarrow> tensor stage" where
  "ChanResizer_obj nchans_t = \<lparr>cls = ChanResizer, call = ChanResizer_call nchans_t\<rparr>"

section \<open>Reading a result\<close>

text \<open>The pixel of a returned array; nothing when the call raised or returned \<^verbatim>\<open>None\<close>.\<close>

fun result_pix :: "error + tensor option \<Rightarrow> nat \<Rightarrow> nat \<Rightarrow> nat \<Rightarrow> px option" where
  "result_pix (Inr (Some t)) r c k = Some (pix t r c k)"
| "result_pix (Inr None) r c k = None"
| "result_pix (Inl e) r c k = None"

text \<open>
  Further inputs: a reference channel with a zero and a NaN pixel, and a single pixel
  equal to zero.
\<close>

definition chandiv_masked_example :: tensor where
  "chandiv_masked_example = of_lists 1 3 2 [[[Fin 5, Fin 10], [Fin 0, Fin 7], [NaN, Fin 15]]]"

definition zero_example :: tensor where
  "zero_example = of_lists 1 1 1 [[[Fin 0]]]"

text \<open>A content of the fresh output buffer of \<^verbatim>\<open>np.log10\<close>: NaN everywhere.\<close>

definition uninit_nan :: "nat \<Rightarrow> chan" where
  "uninit_nan i = (\<lambda>r c. NaN)"

text \<open>What one iteration of the loop of \<^verbatim>\<open>ChanResizer\<close> writes into channel \<open>i\<close>.\<close>

definition ChanResizer_g :: "tensor \<Rightarrow> nat \<Rightarrow> chan \<Rightarrow> chan" where
  "ChanResizer_g data i ch = (if i < nchans data then get_chan data i else get_chan data (nchans data - 1))"

text \<open>
  For the pipeline: an array of one pixel, a resize backend that always raises, and an
  augmenter that returns its image.
\<close>

definition pixel5 :: tensor where
  "pixel5 = of_lists 1 1 1 [[[Fin 5]]]"

definition resize_fails :: "tensor \<Rightarrow> nat option \<Rightarrow> nat \<Rightarrow> bool \<Rightarrow> bool \<Rightarrow> error + tensor option" where
  "resize_fails img min_dim max_dim anti_aliasing preserve_range = Inl TypeError"

definition augment_id :: "tensor \<Rightarrow> error + tensor" where
  "augment_id img = Inr img"

text \<open>What one iteration of the loop of \<^verbatim>\<open>MinMaxNormalizer\<close> writes into channel \<open>i\<close>.\<close>

definition MinMaxNormalizer_g :: "real \<Rightarrow> real \<Rightarrow> tensor \<Rightarrow> nat \<Rightarrow> chan \<Rightarrow> chan" where
  "MinMaxNormalizer_g norm_min norm_max data i ch =
     (let data_ch_1d = valid_1d (ny data) (nx data) (get_chan data i);
          data_ch_min = Min (set data_ch_1d);
          data_ch_max = Max (set data_ch_1d)
      in (\<lambda>r c. if \<not> valid (pix data r c i) then Fin 0
                 else px_add (px_mul (px_div (px_sub (pix data r c i) (Fin data_ch_min))
                                             (Fin (data_ch_max - data_ch_min)))
                                     (Fin (norm_max - norm_min)))
                             (Fin norm_min)))"


text \<open>An input of \<^verbatim>\<open>Scaler\<close> with a valid, a zero and a NaN pixel.\<close>

definition scaler_example :: tensor where
  "scaler_example = of_lists 1 3 1 [[[Fin 3], [Fin 0], [NaN]]]"

text \<open>What one iteration of the loop of \<^verbatim>\<open>SigmaClipper\<close> writes into channel \<open>i\<close>.\<close>

definition SigmaClipper_g ::
  "(real list \<Rightarrow> real \<Rightarrow> real \<Rightarrow> px \<times> px) \<Rightarrow> real \<Rightarrow> real \<Rightarrow> int \<Rightarrow> tensor \<Rightarrow> nat \<Rightarrow> chan \<Rightarrow> chan" where
  "SigmaClipper_g sigma_clip sigma_low sigma_up chid data i ch =
     (if chid \<noteq> - 1 \<and> int i \<noteq> chid then ch
      else SigmaClipper_clip sigma_clip sigma_low sigma_up (ny data) (nx data) (get_chan data i))"

text \<open>
  A two-channel input in which each channel has a finite nonzero, a zero and a NaN
  pixel, and a stand-in for the interval transform that returns the channel.
\<close>

definition mask_example :: tensor where
  "mask_example = of_lists 1 3 2 [[[Fin 3, Fin 4], [Fin 0, NaN], [NaN, Fin 0]]]"

definition zscale_id :: "real \<Rightarrow> nat \<Rightarrow> nat \<Rightarrow> chan \<Rightarrow> chan" where
  "zscale_id contrast h w ch = ch"

text \<open>What the two stages write into channel \<open>k\<close> of an array \<open>t\<close>.\<close>

definition BorderMasker_g :: "real \<Rightarrow> tensor \<Rightarrow> nat \<Rightarrow> chan" where
  "BorderMasker_g mask_fract t k =
     (\<lambda>r c. if \<not> border_mask mask_fract (ny t) (nx t) r c then Fin 0 else pix t r c k)"

definition MaskShrinker_g ::
  "(nat \<Rightarrow> nat \<Rightarrow> (nat \<Rightarrow> nat \<Rightarrow> nat) \<Rightarrow> (nat \<Rightarrow> nat \<Rightarrow> nat)) \<Rightarrow> tensor \<Rightarrow> nat \<Rightarrow> chan" where
  "MaskShrinker_g erode t k =
     (\<lambda>r c. if erode (ny t) (nx t) (\<lambda>r c. if valid (pix t r c k) then 1 else 0) r c = 0 then Fin 0
             else pix t r c k)"

section \<open>Loops over the channels\<close>

lemma set_chan_shape [simp]:
  "ny (set_chan t i ch) = ny t" "nx (set_chan t i ch) = nx t" "nchans (set_chan t i ch) = nchans t"
  by (simp_all add: set_chan_def)

lemma set_chan_pix [simp]:
  "pix (set_chan t i ch) r c k = (if k = i then ch r c else pix t r c k)"
  by (simp add: set_chan_def)

text \<open>
  A loop whose body, whenever it falls through, has written channel \<open>i\<close> with an array
  that depends on \<open>i\<close> and on the channel \<open>i\<close> it found, leaves every visited channel
  with that array and every other channel as it was.
\<close>

lemma for_chans_pix:
  assumes "for_chans is body s = Inr (Some s')"
    and "\<And>i s s1. i \<in> set is \<Longrightarrow> body i s = Inr (Some s1) \<Longrightarrow> s1 = set_chan s i (g i (get_chan s i))"
    and "distinct is"
  shows "ny s' = ny s \<and> nx s' = nx s \<and> nchans s' = nchans s \<and>
         (\<forall>r c k. pix s' r c k = (if k \<in> set is then g k (get_chan s k) r c else pix s r c k))"
  using assms
proof (induction "is" arbitrary: s)
  case Nil
  then show ?case by simp
next
  case (Cons i "is")
  from Cons.prems(1) obtain s1 where b: "body i s = Inr (Some s1)"
    and rest: "for_chans is body s1 = Inr (Some s')"
    by (auto split: sum.splits option.splits)
  have s1: "s1 = set_chan s i (g i (get_chan s i))"
    using Cons.prems(2) b by simp
  have ih: "ny s' = ny s1 \<and> nx s' = nx s1 \<and> nchans s' = nchans s1 \<and>
         (\<forall>r c k. pix s' r c k = (if k \<in> set is then g k (get_chan s1 k) r c else pix s1 r c k))"
    using Cons.IH [OF rest] Cons.prems(2,3) by simp
  have same: "get_chan s1 k = get_chan s k" if "k \<in> set is" for k
  proof -
    from that Cons.prems(3) have "k \<noteq> i" by auto
    then show ?thesis by (simp add: s1 get_chan_def)
  qed
  show ?case
    using ih same by (auto simp: s1)
qed

lemma for_chans_total:
  assumes "\<And>i s. i \<in> set is \<Longrightarrow> \<exists>s1. body i s = Inr (Some s1)"
  shows "\<exists>s'. for_chans is body s = Inr (Some s')"
  using assms
proof (induction "is" arbitrary: s)
  case Nil
  then show ?case by simp
next
  case (Cons i "is")
  then obtain s1 where "body i s = Inr (Some s1)" by (meson list.set_intros(1))
  moreover have "\<exists>s'. for_chans is body s1 = Inr (Some s')"
    using Cons by simp
  ultimately show ?case by auto
qed

section \<open>ChanDivider: ratios to the reference channel\<close>

lemma ChanDivider_loop_total:
  "\<exists>s'. for_chans is (ChanDivider_body chref data_ref data_denom) s = Inr (Some s')"
  by (rule for_chans_total) (simp add: ChanDivider_body_def Let_def)

lemma ChanDivider_loop_pix:
  assumes "for_chans [0..<n] (ChanDivider_body chref data_ref data_denom) s = Inr (Some s')"
  shows "ny s' = ny s \<and> nx s' = nx s \<and> nchans s' = nchans s \<and>
         (\<forall>r c k. pix s' r c k =
            (if k \<in> set [0..<n] then ChanDivider_g chref data_ref data_denom k (get_chan s k) r c
             else pix s r c k))"
  by (rule for_chans_pix [OF assms])
     (auto simp: ChanDivider_body_def ChanDivider_g_def Let_def get_chan_def split: if_splits)

lemma ChanDivider_plain:
  assumes "py_index (nchans data) chref = Some j"
  shows "\<exists>out. ChanDivider_call chref False False trim trim_min trim_max (Some data) = Inr (Some out)
           \<and> ny out = ny data \<and> nx out = nx data \<and> nchans out = nchans data
           \<and> (\<forall>r c k. k < nchans data \<longrightarrow> pix out r c k =
                (if \<not> valid (pix data r c k) then Fin 0
                 else if int k = chref then pix data r c j
                 else if \<not> valid (pix data r c j) then Fin 0
                 else px_div (pix data r c k) (pix data r c j)))"
proof -
  let ?ref = "get_chan data j"
  let ?den = "\<lambda>r c. if px_eq0 (?ref r c) then Fin 1 else ?ref r c"
  obtain s' where s': "for_chans [0..<nchans data] (ChanDivider_body chref ?ref ?den) data = Inr (Some s')"
    using ChanDivider_loop_total by blast
  note px = ChanDivider_loop_pix [OF s']
  let ?out = "s'\<lparr>pix := (\<lambda>r c k. if \<not> valid (pix data r c k) then Fin 0 else pix s' r c k)\<rparr>"
  have call: "ChanDivider_call chref False False trim trim_min trim_max (Some data) = Inr (Some ?out)"
    using assms s' by (simp add: ChanDivider_call_def Let_def)
  have jk: "k = j" if "int k = chref" "k < nchans data" for k
    using that assms by (auto simp: py_index_def split: if_splits)
  have den: "?den r c = pix data r c j" if "valid (pix data r c j)" for r c
    using that by (cases "pix data r c j") (auto simp: valid_def px_ne0_def get_chan_def)
  have "pix ?out r c k =
                (if \<not> valid (pix data r c k) then Fin 0
                 else if int k = chref then pix data r c j
                 else if \<not> valid (pix data r c j) then Fin 0
                 else px_div (pix data r c k) (pix data r c j))" if "k < nchans data" for r c k
  proof (cases "valid (pix data r c j)")
    case True
    then show ?thesis
      using that px den [OF True] by (simp add: ChanDivider_g_def get_chan_def)
  next
    case False
    then show ?thesis
      using that px jk by (auto simp: ChanDivider_g_def get_chan_def)
  qed
  then show ?thesis
    using call px by auto
qed

lemma ChanDivider_strip:
  assumes "py_index (nchans data) chref = Some j"
  shows "ChanDivider_call chref logtransf True trim trim_min trim_max (Some data) = Inl NameError"
proof -
  let ?ref = "get_chan data j"
  let ?den = "\<lambda>r c. if px_eq0 (?ref r c) then Fin 1 else ?ref r c"
  obtain s' where s': "for_chans [0..<nchans data] (ChanDivider_body chref ?ref ?den) data = Inr (Some s')"
    using ChanDivider_loop_total by blast
  show ?thesis
    using assms s' by (simp add: ChanDivider_call_def Let_def)
qed

lemma chandiv_example_shape [simp]:
  "nchans chandiv_example = 2" "nchans chandiv_masked_example = 2"
  by (simp_all add: chandiv_example_def chandiv_masked_example_def of_lists_def)

text \<open>
  C5. The claim: with \<^verbatim>\<open>strip_chref=True\<close>, ChanDivider returns the ratio channels
  without the reference channel. The code does not: on the input of the channel-divide
  scenario (and on any array whose reference channel exists) the call raises NameError
  instead of returning an array.
\<close>

theorem ChanDivider_strip_chref_raises:
  "ChanDivider_call 0 False True False (- 6) 6 (Some chandiv_example) = Inl NameError"
  by (rule ChanDivider_strip [where j = 0]) (simp add: py_index_def)

text \<open>
  C7. On the two-channel input whose reference channel 0 is uniformly 5 and whose second
  channel is 10, 0, 15, \<^verbatim>\<open>ChanDivider(chref=0)\<close> without log transform or stripping
  returns 2, 0, 3 in the second channel; and on any input the ratio channels are 0
  wherever the reference pixel is invalid.
\<close>

theorem ChanDivider_scenario:
  "(\<exists>out. ChanDivider_call 0 False False False (- 6) 6 (Some chandiv_example) = Inr (Some out)
      \<and> nchans out = 2
      \<and> pix out 0 0 0 = Fin 5 \<and> pix out 0 1 0 = Fin 5 \<and> pix out 0 2 0 = Fin 5
      \<and> pix out 0 0 1 = Fin 2 \<and> pix out 0 1 1 = Fin 0 \<and> pix out 0 2 1 = Fin 3)
   \<and> (py_index (nchans data) chref = Some j \<longrightarrow>
        (\<exists>out. ChanDivider_call chref False False trim trim_min trim_max (Some data) = Inr (Some out)
           \<and> (\<forall>r c k. k < nchans data \<and> k \<noteq> j \<and> \<not> valid (pix data r c j) \<longrightarrow> pix out r c k = Fin 0)))"
proof (intro conjI impI)
  have j: "py_index (nchans chandiv_example) 0 = Some 0"
    by (simp add: py_index_def)
  from ChanDivider_plain [OF j, of False "- 6" 6] obtain out where
    out: "ChanDivider_call 0 False False False (- 6) 6 (Some chandiv_example) = Inr (Some out)"
      "nchans out = nchans chandiv_example"
      "\<And>r c k. k < nchans chandiv_example \<Longrightarrow> pix out r c k =
                (if \<not> valid (pix chandiv_example r c k) then Fin 0
                 else if int k = 0 then pix chandiv_example r c 0
                 else if \<not> valid (pix chandiv_example r c 0) then Fin 0
                 else px_div (pix chandiv_example r c k) (pix chandiv_example r c 0))"
    by blast
  have "nchans out = 2 
      \<and> pix out 0 0 0 = Fin 5 \<and> pix out 0 1 0 = Fin 5 \<and> pix out 0 2 0 = Fin 5
      \<and> pix out 0 0 1 = Fin 2 \<and> pix out 0 1 1 = Fin 0 \<and> pix out 0 2 1 = Fin 3"
    using out(2) out(3)[of 0] out(3)[of 1]
    by simp (simp add: chandiv_example_def of_lists_def valid_def px_ne0_def)
  with out(1) show "\<exists>out. ChanDivider_call 0 False False False (- 6) 6 (Some chandiv_example) = Inr (Some out)
      \<and> nchans out = 2
      \<and> pix out 0 0 0 = Fin 5 \<and> pix out 0 1 0 = Fin 5 \<and> pix out 0 2 0 = Fin 5
      \<and> pix out 0 0 1 = Fin 2 \<and> pix out 0 1 1 = Fin 0 \<and> pix out 0 2 1 = Fin 3"
    by blast
next
  assume j: "py_index (nchans data) chref = Some j"
  have jk: "k = j" if "int k = chref" "k < nchans data" for k
    using that j by (auto simp: py_index_def split: if_splits)
  from ChanDivider_plain [OF j, of trim trim_min trim_max] jk
  show "\<exists>out. ChanDivider_call chref False False trim trim_min trim_max (Some data) = Inr (Some out)
           \<and> (\<forall>r c k. k < nchans data \<and> k \<noteq> j \<and> \<not> valid (pix data r c j) \<longrightarrow> pix out r c k = Fin 0)"
    by (metis (no_types, lifting))
qed

theorem ChanDivider_scenario_witness:
  "py_index (nchans chandiv_masked_example) 0 = Some 0
   \<and> (\<exists>out. ChanDivider_call 0 False False False (- 6) 6 (Some chandiv_masked_example) = Inr (Some out)
        \<and> pix out 0 1 1 = Fin 0 \<and> pix out 0 2 1 = Fin 0)"
proof -
  have j: "py_index (nchans chandiv_masked_example) 0 = Some 0"
    by (simp add: py_index_def)
  from ChanDivider_scenario [of chandiv_masked_example 0 0 False "- 6" 6] j
  obtain out where
    out: "ChanDivider_call 0 False False False (- 6) 6 (Some chandiv_masked_example) = Inr (Some out)"
      "\<And>r c k. k < nchans chandiv_masked_example \<and> k \<noteq> 0 \<and> \<not> valid (pix chandiv_masked_example r c 0)
          \<Longrightarrow> pix out r c k = Fin 0"
    by blast
  have "pix out 0 1 1 = Fin 0" "pix out 0 2 1 = Fin 0"
    by (rule out(2); simp add: chandiv_masked_example_def of_lists_def valid_def px_ne0_def)+
  with j out(1) show ?thesis by blast
qed

section \<open>MinShifter and Scaler: exceptions\<close>

lemma Scaler_init_raises: "Scaler_init scale_factors = Inl AttributeError"
  by (simp add: Scaler_init_def getattr_def)

text \<open>
  C2. The claim: a stage whose precondition is violated, such as a channel without a
  valid pixel, returns \<^verbatim>\<open>None\<close> and never raises. The code does not: on a 1 x 1 x 1
  array holding the pixel 0, \<^verbatim>\<open>MinShifter()\<close> takes the minimum of an empty array and
  the ValueError of numpy leaves the call.
\<close>

theorem MinShifter_raises_on_empty_channel:
  "MinShifter_call (- 1) (Some zero_example) = Inl ValueError"
  by (simp add: MinShifter_call_def zero_example_def of_lists_def MinShifter_body_def
      valid_1d_def flat_def List.map_filter_simps np_min_def get_chan_def)

section \<open>LogStretcher: the log-stretch scenario\<close>

lemma log10_vals: "log 10 100 = 2" "log 10 (1 / 100) = - 2" "log 10 1 = 0"
proof -
  have "log 10 ((10::real) ^ 2) = 2" by (subst log_pow_cancel) simp_all
  then show a: "log 10 100 = 2" by simp
  have "log 10 (1 / 100) = - log 10 100" by (simp add: log_divide)
  with a show "log 10 (1 / 100) = - 2" by simp
  show "log 10 1 = 0" by simp
qed

lemmas LogStretcher_eval =
  LogStretcher_call_def logstretch_example_def of_lists_def LogStretcher_body_def
  flat_def List.map_filter_simps np_min_def get_chan_def px_gt_def log10_vals upt_rec

text \<open>
  C4, as the claim states it, fails: with min/max normalization disabled the masked pixel
  of the scenario does not stay 0. It is given the minimum log value of the channel.
\<close>

theorem LogStretcher_masked_pixel_counterexample:
  "pix logstretch_example 0 3 0 = Fin 0
   \<and> result_pix (LogStretcher_call (- 1) False (- 6) 6 False uninit_nan (Some logstretch_example)) 0 3 0
       = Some (Fin (- 2))
   \<and> result_pix (LogStretcher_call (- 1) False (- 6) 6 False uninit_nan (Some logstretch_example)) 0 3 0
       \<noteq> Some (Fin 0)"
  by (simp add: LogStretcher_eval uninit_nan_def)

text \<open>
  C4, amended. On the single-channel input with the valid pixels 0.01, 1, 100 and one
  masked pixel equal to 0, LogStretcher with min/max normalization and negative clipping
  disabled maps the valid pixels to -2, 0, 2 and sets the masked pixel to the minimum
  log value of the channel, -2, whatever the output buffer of the logarithm held.
\<close>

theorem LogStretcher_scenario:
  "\<exists>out. LogStretcher_call (- 1) False (- 6) 6 False uninit (Some logstretch_example) = Inr (Some out)
     \<and> pix out 0 0 0 = Fin (- 2) \<and> pix out 0 1 0 = Fin 0 \<and> pix out 0 2 0 = Fin 2
     \<and> pix out 0 3 0 = Fin (- 2)"
  by (simp add: LogStretcher_eval)

theorem LogStretcher_scenario_witness:
  "\<exists>out. LogStretcher_call (- 1) False (- 6) 6 False (\<lambda>i r c. PInf) (Some logstretch_example) = Inr (Some out)
     \<and> pix out 0 0 0 = Fin (- 2) \<and> pix out 0 1 0 = Fin 0 \<and> pix out 0 2 0 = Fin 2
     \<and> pix out 0 3 0 = Fin (- 2)"
  using LogStretcher_scenario [of "\<lambda>i r c. PInf"] .

text \<open>With min/max normalization enabled, the masked pixel of the scenario is reset to 0.\<close>

lemma LogStretcher_minmaxnorm_resets_masked_pixel:
  "\<exists>out. LogStretcher_call (- 1) True (- 6) 6 False uninit (Some logstretch_example) = Inr (Some out)
     \<and> pix out 0 3 0 = Fin 0"
  by (simp add: LogStretcher_eval)


section \<open>ChanResizer: idempotence and replication of the last channel\<close>

lemma ChanResizer_body_eq:
  assumes "0 < nchans data" "expanding \<or> i < nchans data"
  shows "ChanResizer_body expanding data i s = Inr (Some (set_chan s i (ChanResizer_g data i (get_chan s i))))"
  using assms
  by (auto simp: ChanResizer_body_def ChanResizer_g_def py_index_def Let_def nat_diff_distrib)

text \<open>
  C8. For an input with at least one channel and a target \<open>k\<close> with \<open>0 < k \<le> 1000\<close>,
  \<^verbatim>\<open>ChanResizer(k)\<close> returns an array with \<open>k\<close> channels on which a second application
  changes nothing; when \<open>k\<close> exceeds the channel count \<open>c\<close> of the input, channels
  \<open>0..c-1\<close> of the output are those of the input and every channel from \<open>c\<close> on is the
  last channel of the input.
\<close>

theorem ChanResizer_idempotent_and_replicates:
  assumes "0 < k" "k \<le> 1000" "0 < nchans data"
  shows "\<exists>out. ChanResizer_call k (Some data) = Inr (Some out)
           \<and> ChanResizer_call k (Some out) = Inr (Some out)
           \<and> ny out = ny data \<and> nx out = nx data \<and> nchans out = nat k
           \<and> (int (nchans data) < k \<longrightarrow>
                (\<forall>r c i. i < nat k \<longrightarrow>
                   pix out r c i = (if i < nchans data then pix data r c i
                                    else pix data r c (nchans data - 1))))"
proof (cases "k = int (nchans data)")
  case True
  then show ?thesis using assms by (auto simp: ChanResizer_call_def nchans_max_def)
next
  case False
  let ?z = "\<lparr>ny = ny data, nx = nx data, nchans = nat k, pix = (\<lambda>r c k. Fin 0)\<rparr>"
  let ?e = "k > int (nchans data)"
  have body: "ChanResizer_body ?e data i s = Inr (Some (set_chan s i (ChanResizer_g data i (get_chan s i))))"
    if "i \<in> set [0..<nat k]" for i s
    using that assms(3) by (intro ChanResizer_body_eq) auto
  obtain out where out: "for_chans [0..<nat k] (ChanResizer_body ?e data) ?z = Inr (Some out)"
    using for_chans_total [of "[0..<nat k]" "ChanResizer_body ?e data" ?z] body by blast
  have px: "ny out = ny ?z \<and> nx out = nx ?z \<and> nchans out = nchans ?z \<and>
         (\<forall>r c i. pix out r c i =
            (if i \<in> set [0..<nat k] then ChanResizer_g data i (get_chan ?z i) r c else pix ?z r c i))"
    by (rule for_chans_pix [OF out]) (auto simp: body)
  have first: "ChanResizer_call k (Some data) = Inr (Some out)"
    using False assms out by (simp add: ChanResizer_call_def nchans_max_def Let_def)
  have again: "ChanResizer_call k (Some out) = Inr (Some out)"
    using px assms by (simp add: ChanResizer_call_def nchans_max_def)
  show ?thesis
    using first again px by (auto simp: ChanResizer_g_def get_chan_def)
qed

theorem ChanResizer_idempotent_and_replicates_witness:
  "(0::int) < 4 \<and> (4::int) \<le> 1000 \<and> 0 < nchans chanresize_example
   \<and> (\<exists>out. ChanResizer_call 4 (Some chanresize_example) = Inr (Some out)
         \<and> ChanResizer_call 4 (Some out) = Inr (Some out)
         \<and> nchans out = 4
         \<and> pix out 0 0 0 = Fin 7 \<and> pix out 0 0 1 = Fin 9 \<and> pix out 0 0 2 = Fin 9 \<and> pix out 0 0 3 = Fin 9)"
proof -
  have n: "nchans chanresize_example = 2"
    by (simp add: chanresize_example_def of_lists_def)
  have h: "(0::int) < 4" "(4::int) \<le> 1000" "0 < nchans chanresize_example"
    by (simp_all add: n)
  from ChanResizer_idempotent_and_replicates [OF h] obtain out where
    out: "ChanResizer_call 4 (Some chanresize_example) = Inr (Some out)"
      "ChanResizer_call 4 (Some out) = Inr (Some out)"
      "nchans out = nat 4"
      "\<And>r c i. i < nat 4 \<Longrightarrow> pix out r c i =
          (if i < nchans chanresize_example then pix chanresize_example r c i
           else pix chanresize_example r c (nchans chanresize_example - 1))"
    unfolding n by auto
  have "pix out 0 0 0 = Fin 7" "pix out 0 0 1 = Fin 9" "pix out 0 0 2 = Fin 9" "pix out 0 0 3 = Fin 9"
    using out(4) [of 0 0 0] out(4) [of 1 0 0] out(4) [of 2 0 0] out(4) [of 3 0 0]
    by (simp_all add: n) (simp_all add: chanresize_example_def of_lists_def)
  with h out(1,2,3) show ?thesis by auto
qed

section \<open>DataPreprocessor: order of application and removal of augmenters\<close>

text \<open>
  C3. For stages \<open>A\<close>, \<open>B\<close>, \<open>C\<close> and an input \<open>x\<close> on which \<open>A\<close> returns \<open>a\<close>,
  \<open>B\<close> returns \<open>b\<close> on \<open>a\<close> and \<open>C\<close> returns \<open>c\<close> on \<open>b\<close>, the pipeline built from
  the list \<open>[A, B, C]\<close> returns \<open>c\<close>, that is \<open>C(B(A(x)))\<close>: the first stage declared
  is applied first.
\<close>

theorem DataPreprocessor_applies_in_declared_order:
  assumes "call A (Some x) = Inr (Some a)"
    and "call B (Some a) = Inr (Some b)"
    and "call C (Some b) = Inr (Some c)"
  shows "DataPreprocessor_call (DataPreprocessor_init [A, B, C]) (Some x) = Inr (Some c)"
  using assms by (simp add: DataPreprocessor_call_def DataPreprocessor_init_def)

theorem DataPreprocessor_applies_in_declared_order_witness:
  "\<exists>a b c. call (Shifter_obj [5]) (Some pixel5) = Inr (Some a)
     \<and> call (Shifter_obj [1]) (Some a) = Inr (Some b)
     \<and> call (Shifter_obj [2]) (Some b) = Inr (Some c)
     \<and> DataPreprocessor_call
          (DataPreprocessor_init [Shifter_obj [5], Shifter_obj [1], Shifter_obj [2]]) (Some pixel5)
         = Inr (Some c)
     \<and> pix c 0 0 0 = Fin 0"
proof -
  obtain a where a: "call (Shifter_obj [5]) (Some pixel5) = Inr (Some a)" "nchans a = 1" "pix a 0 0 0 = Fin 0"
    by (simp add: Shifter_obj_def Shifter_call_def pixel5_def of_lists_def px_sub_def valid_def px_ne0_def)
  obtain b where b: "call (Shifter_obj [1]) (Some a) = Inr (Some b)" "nchans b = 1" "pix b 0 0 0 = Fin 0"
    using a(2,3) by (simp add: Shifter_obj_def Shifter_call_def valid_def px_ne0_def)
  obtain c where c: "call (Shifter_obj [2]) (Some b) = Inr (Some c)" "pix c 0 0 0 = Fin 0"
    using b(2,3) by (simp add: Shifter_obj_def Shifter_call_def valid_def px_ne0_def)
  from DataPreprocessor_applies_in_declared_order [OF a(1) b(1) c(1)] a b c show ?thesis by blast
qed

lemma disable_scan_eq:
  "disable_scan fs (b, acc) =
     (b \<or> (\<exists>f \<in> set fs. is_augmenter f), acc @ filter (\<lambda>f. \<not> is_augmenter f) fs)"
  by (induction fs arbitrary: b acc) auto

text \<open>
  For any stage list, disabling augmentation gives the function list and the composed
  function of the pipeline built from the list without its augmenters.
\<close>

lemma disable_augmentation_filter:
  "fcns (disable_augmentation (DataPreprocessor_init stages))
     = fcns (DataPreprocessor_init (filter (\<lambda>f. \<not> is_augmenter f) stages))
   \<and> pipeline (disable_augmentation (DataPreprocessor_init stages))
     = pipeline (DataPreprocessor_init (filter (\<lambda>f. \<not> is_augmenter f) stages))"
proof (cases "\<exists>f \<in> set stages. is_augmenter f")
  case True
  then show ?thesis
    by (simp add: disable_augmentation_def DataPreprocessor_init_def disable_scan_eq rev_filter Let_def)
next
  case False
  then have "filter (\<lambda>f. \<not> is_augmenter f) stages = stages" by (simp add: filter_id_conv)
  with False show ?thesis
    by (simp add: disable_augmentation_def DataPreprocessor_init_def disable_scan_eq Let_def)
qed

text \<open>
  C6. The pipeline built from \<open>[Resizer, Augmenter, MinMaxNormalizer]\<close>, after
  \<^verbatim>\<open>disable_augmentation\<close>, gives on every input the result of the pipeline built from
  \<open>[Resizer, MinMaxNormalizer]\<close>, and holds the same functions in the same order.
\<close>

theorem disable_augmentation_equals_direct_pipeline:
  "DataPreprocessor_call
     (disable_augmentation (DataPreprocessor_init
        [Resizer_obj resize_img_v2 img_as_float64 resize_size preserve_range upscale aa pad,
         Augmenter_obj augment_image,
         MinMaxNormalizer_obj norm_min norm_max])) data
   = DataPreprocessor_call
     (DataPreprocessor_init
        [Resizer_obj resize_img_v2 img_as_float64 resize_size preserve_range upscale aa pad,
         MinMaxNormalizer_obj norm_min norm_max]) data
   \<and> fcns (disable_augmentation (DataPreprocessor_init
        [Resizer_obj resize_img_v2 img_as_float64 resize_size preserve_range upscale aa pad,
         Augmenter_obj augment_image,
         MinMaxNormalizer_obj norm_min norm_max]))
   = fcns (DataPreprocessor_init
        [Resizer_obj resize_img_v2 img_as_float64 resize_size preserve_range upscale aa pad,
         MinMaxNormalizer_obj norm_min norm_max])"
  using disable_augmentation_filter
    [of "[Resizer_obj resize_img_v2 img_as_float64 resize_size preserve_range upscale aa pad,
          Augmenter_obj augment_image,
          MinMaxNormalizer_obj norm_min norm_max]"]
  by (simp add: DataPreprocessor_call_def is_augmenter_def Resizer_obj_def Augmenter_obj_def
      MinMaxNormalizer_obj_def)

theorem disable_augmentation_equals_direct_pipeline_witness:
  "DataPreprocessor_call
     (disable_augmentation (DataPreprocessor_init
        [Resizer_obj resize_fails Inr 1 True False False True,
         Augmenter_obj augment_id,
         MinMaxNormalizer_obj 0 1])) (Some pixel5)
   = DataPreprocessor_call
     (DataPreprocessor_init
        [Resizer_obj resize_fails Inr 1 True False False True,
         MinMaxNormalizer_obj 0 1]) (Some pixel5)
   \<and> fcns (disable_augmentation (DataPreprocessor_init
        [Resizer_obj resize_fails Inr 1 True False False True,
         Augmenter_obj augment_id,
         MinMaxNormalizer_obj 0 1]))
   = fcns (DataPreprocessor_init
        [Resizer_obj resize_fails Inr 1 True False False True,
         MinMaxNormalizer_obj 0 1])"
  using disable_augmentation_equals_direct_pipeline
    [of resize_fails Inr 1 True False False True augment_id 0 1 "Some pixel5"] .

section \<open>MinMaxNormalizer: the minimum of a channel\<close>

lemma np_min_Min: "xs \<noteq> [] \<Longrightarrow> np_min xs = Inr (Min (set xs))"
  by (cases xs) (simp_all add: np_min_def Min.set_eq_fold [symmetric])

lemma np_max_Max: "xs \<noteq> [] \<Longrightarrow> np_max xs = Inr (Max (set xs))"
  by (cases xs) (simp_all add: np_max_def Max.set_eq_fold [symmetric])

lemma set_flat: "set (flat h w ch) = {ch r c | r c. r < h \<and> c < w}"
  by (fastforce simp: flat_def)

lemma valid_val_Some: "valid_val p = Some x \<longleftrightarrow> p = Fin x \<and> x \<noteq> 0"
  by (cases p) auto


lemma set_map_filter: "set (List.map_filter f xs) = {y. \<exists>x \<in> set xs. f x = Some y}"
  by (induction xs) (auto split: option.splits)

lemma valid_1d_mem:
  "x \<in> set (valid_1d h w ch) \<longleftrightarrow> (\<exists>r < h. \<exists>c < w. ch r c = Fin x \<and> x \<noteq> 0)"
proof
  assume "x \<in> set (valid_1d h w ch)"
  then obtain p where "p \<in> set (flat h w ch)" "valid_val p = Some x"
    unfolding valid_1d_def set_map_filter by blast
  then show "\<exists>r < h. \<exists>c < w. ch r c = Fin x \<and> x \<noteq> 0"
    unfolding set_flat valid_val_Some by blast
next
  assume "\<exists>r < h. \<exists>c < w. ch r c = Fin x \<and> x \<noteq> 0"
  then obtain r c where rc: "r < h" "c < w" "ch r c = Fin x" "x \<noteq> 0" by blast
  then have "ch r c \<in> set (flat h w ch)" unfolding set_flat by blast
  moreover have "valid_val (ch r c) = Some x" using rc by simp
  ultimately show "x \<in> set (valid_1d h w ch)"
    unfolding valid_1d_def set_map_filter by blast
qed

lemma MinMaxNormalizer_body_eq:
  assumes "valid_1d (ny data) (nx data) (get_chan data i) \<noteq> []"
  shows "MinMaxNormalizer_body norm_min norm_max data i s
           = Inr (Some (set_chan s i (MinMaxNormalizer_g norm_min norm_max data i (get_chan s i))))"
  using assms
  by (simp add: MinMaxNormalizer_body_def MinMaxNormalizer_g_def Let_def np_min_Min np_max_Max get_chan_def)

lemma MinMaxNormalizer_pix:
  assumes "\<forall>k < nchans data. valid_1d (ny data) (nx data) (get_chan data k) \<noteq> []"
  shows "\<exists>out. MinMaxNormalizer_call norm_min norm_max (Some data) = Inr (Some out)
           \<and> ny out = ny data \<and> nx out = nx data \<and> nchans out = nchans data
           \<and> (\<forall>r c k. k < nchans data \<longrightarrow>
                 pix out r c k = MinMaxNormalizer_g norm_min norm_max data k (get_chan data k) r c)"
proof -
  let ?body = "MinMaxNormalizer_body norm_min norm_max data"
  have body: "?body i s = Inr (Some (set_chan s i (MinMaxNormalizer_g norm_min norm_max data i (get_chan s i))))"
    if "i \<in> set [0..<nchans data]" for i s
    using that assms by (intro MinMaxNormalizer_body_eq) simp
  obtain out where out: "for_chans [0..<nchans data] ?body data = Inr (Some out)"
    using for_chans_total [of "[0..<nchans data]" ?body data] body by blast
  have px: "ny out = ny data \<and> nx out = nx data \<and> nchans out = nchans data \<and>
         (\<forall>r c k. pix out r c k =
            (if k \<in> set [0..<nchans data]
             then MinMaxNormalizer_g norm_min norm_max data k (get_chan data k) r c else pix data r c k))"
    by (rule for_chans_pix [OF out]) (auto simp: body)
  have "MinMaxNormalizer_call norm_min norm_max (Some data) = Inr (Some out)"
    using out by (simp add: MinMaxNormalizer_call_def)
  with px show ?thesis by auto
qed




section \<open>Restoration of the mask\<close>

text \<open>
  \<^verbatim>\<open>Scaler.__call__\<close> returns the product as it is: a NaN pixel of the input is NaN in
  the output.
\<close>

lemma Scaler_keeps_nan:
  "\<not> valid (pix scaler_example 0 2 0)
   \<and> result_pix (Scaler_call [2] (Some scaler_example)) 0 2 0 = Some NaN"
  by (simp add: Scaler_call_def scaler_example_def of_lists_def valid_def)

text \<open>
  Whatever bounds the clipping library computes, \<^verbatim>\<open>SigmaClipper\<close> with \<^verbatim>\<open>chid=0\<close>
  returns the NaN pixel of channel 1 as it is.
\<close>

lemma SigmaClipper_unselected_channel:
  "result_pix (SigmaClipper_call sigma_clip sigma_low sigma_up 0 (Some sigmaclip_example)) 0 1 1 = Some NaN"
  by (simp add: SigmaClipper_call_def sigmaclip_example_def of_lists_def
      SigmaClipper_body_def upt_rec Let_def get_chan_def)

lemma SigmaClipper_selected_channel_keeps_nan:
  "\<not> valid (pix sigmaclip_example 0 1 1)
   \<and> valid (pix sigmaclip_example 0 0 0) \<and> valid (pix sigmaclip_example 0 0 1)
   \<and> result_pix (SigmaClipper_call no_clip 10 10 0 (Some sigmaclip_example)) 0 1 1 = Some NaN
   \<and> result_pix (SigmaClipper_call no_clip 10 10 0 (Some sigmaclip_example)) 0 1 1 \<noteq> Some (Fin 0)"
  by (simp add: SigmaClipper_call_def sigmaclip_example_def of_lists_def valid_def px_ne0_def
      SigmaClipper_body_def SigmaClipper_clip_def no_clip_def upt_rec Let_def get_chan_def px_gt_def)

text \<open>
  \<^verbatim>\<open>ChanDivider\<close> trims after it has restored the mask: with the log transform and the
  trimming enabled and \<^verbatim>\<open>trim_min=1\<close>, the zero pixel of the second channel, set to 0 by
  the restoration, is below the lower bound and is moved to 1.
\<close>

lemma ChanDivider_trim_moves_masked_pixel:
  "\<not> valid (pix mask_example 0 2 1)
   \<and> valid (pix mask_example 0 0 0) \<and> valid (pix mask_example 0 0 1)
   \<and> result_pix (ChanDivider_call 0 True False True 1 6 (Some mask_example)) 0 2 1 = Some (Fin 1)
   \<and> result_pix (ChanDivider_call 0 True False True 1 6 (Some mask_example)) 0 2 1 \<noteq> Some (Fin 0)"
  by (simp add: ChanDivider_call_def mask_example_def of_lists_def valid_def px_ne0_def py_index_def
      ChanDivider_body_def ChanDivider_log_def upt_rec Let_def get_chan_def px_gt_def)

text \<open>
  C1, as the claim states it, fails, in two places. \<^verbatim>\<open>SigmaClipper\<close> with a channel
  selector leaves the other channels as they are: with \<^verbatim>\<open>chid=0\<close>, the NaN pixel of
  channel 1 is NaN in the output. \<^verbatim>\<open>ChanDivider\<close> with log transform, trimming and
  \<^verbatim>\<open>trim_min=1\<close> returns 1 at a pixel that is 0 in the input. In both inputs each
  channel has a valid pixel and the call returns an array.
\<close>

theorem mask_restoration_counterexample:
  "(\<not> valid (pix sigmaclip_example 0 1 1)
    \<and> valid (pix sigmaclip_example 0 0 0) \<and> valid (pix sigmaclip_example 0 0 1)
    \<and> result_pix (SigmaClipper_call no_clip 10 10 0 (Some sigmaclip_example)) 0 1 1 = Some NaN
    \<and> result_pix (SigmaClipper_call no_clip 10 10 0 (Some sigmaclip_example)) 0 1 1 \<noteq> Some (Fin 0))
   \<and> (\<not> valid (pix mask_example 0 2 1)
    \<and> valid (pix mask_example 0 0 0) \<and> valid (pix mask_example 0 0 1)
    \<and> result_pix (ChanDivider_call 0 True False True 1 6 (Some mask_example)) 0 2 1 = Some (Fin 1)
    \<and> result_pix (ChanDivider_call 0 True False True 1 6 (Some mask_example)) 0 2 1 \<noteq> Some (Fin 0))"
  using SigmaClipper_selected_channel_keeps_nan ChanDivider_trim_moves_masked_pixel by (rule conjI)

lemma Shifter_mask:
  assumes "length offsets = nchans data" "0 < nchans data"
  shows "\<exists>out. Shifter_call offsets (Some data) = Inr (Some out)
          \<and> (\<forall>r c k. \<not> valid (pix data r c k) \<longrightarrow> pix out r c k = Fin 0)"
  using assms by (simp add: Shifter_call_def Let_def)

lemma Standardizer_mask:
  assumes "length means = nchans data" "length sigmas = nchans data" "0 < nchans data"
  shows "\<exists>out. Standardizer_call means sigmas (Some data) = Inr (Some out)
          \<and> (\<forall>r c k. \<not> valid (pix data r c k) \<longrightarrow> pix out r c k = Fin 0)"
  using assms by (simp add: Standardizer_call_def Let_def)

lemma MinMaxNormalizer_mask:
  assumes "\<forall>k < nchans data. valid_1d (ny data) (nx data) (get_chan data k) \<noteq> []"
  shows "\<exists>out. MinMaxNormalizer_call norm_min norm_max (Some data) = Inr (Some out)
          \<and> (\<forall>r c k. k < nchans data \<and> \<not> valid (pix data r c k) \<longrightarrow> pix out r c k = Fin 0)"
proof -
  obtain out where out: "MinMaxNormalizer_call norm_min norm_max (Some data) = Inr (Some out)"
    "\<And>r c k. k < nchans data \<Longrightarrow> pix out r c k = MinMaxNormalizer_g norm_min norm_max data k (get_chan data k) r c"
    using MinMaxNormalizer_pix [OF assms, of norm_min norm_max] by blast
  have "pix out r c k = Fin 0" if "k < nchans data" "\<not> valid (pix data r c k)" for r c k
    using out(2) [OF that(1), of r c] that(2) by (simp add: MinMaxNormalizer_g_def Let_def)
  with out(1) show ?thesis by blast
qed

lemma set_chan_same: "set_chan s i (get_chan s i) = s"
proof -
  have "(\<lambda>r c k. if k = i then pix s r c i else pix s r c k) = pix s"
    by (intro ext) simp
  then show ?thesis by (simp add: set_chan_def get_chan_def)
qed

lemma SigmaClipper_body_eq:
  "SigmaClipper_body sigma_clip sigma_low sigma_up chid data i s
     = Inr (Some (set_chan s i (SigmaClipper_g sigma_clip sigma_low sigma_up chid data i (get_chan s i))))"
  by (simp add: SigmaClipper_body_def SigmaClipper_g_def set_chan_same Let_def)

lemma SigmaClipper_mask:
  "\<exists>out. SigmaClipper_call sigma_clip sigma_low sigma_up chid (Some data) = Inr (Some out)
          \<and> (\<forall>r c k. k < nchans data \<and> (chid = - 1 \<or> int k = chid) \<and> \<not> valid (pix data r c k)
                \<longrightarrow> pix out r c k = Fin 0)
          \<and> (\<forall>r c k. k < nchans data \<and> chid \<noteq> - 1 \<and> int k \<noteq> chid
                \<longrightarrow> pix out r c k = pix data r c k)"
proof -
  let ?body = "SigmaClipper_body sigma_clip sigma_low sigma_up chid data"
  let ?g = "SigmaClipper_g sigma_clip sigma_low sigma_up chid data"
  obtain out where out: "for_chans [0..<nchans data] ?body data = Inr (Some out)"
    using for_chans_total [of "[0..<nchans data]" ?body data] SigmaClipper_body_eq by blast
  have px: "ny out = ny data \<and> nx out = nx data \<and> nchans out = nchans data \<and>
         (\<forall>r c k. pix out r c k =
            (if k \<in> set [0..<nchans data] then ?g k (get_chan data k) r c else pix data r c k))"
    by (rule for_chans_pix [OF out]) (auto simp: SigmaClipper_body_eq)
  have "pix out r c k = Fin 0"
    if "k < nchans data" "chid = - 1 \<or> int k = chid" "\<not> valid (pix data r c k)" for r c k
    using px that by (auto simp: SigmaClipper_g_def SigmaClipper_clip_def Let_def get_chan_def)
  moreover have "pix out r c k = pix data r c k"
    if "k < nchans data" "chid \<noteq> - 1" "int k \<noteq> chid" for r c k
    using px that by (simp add: SigmaClipper_g_def get_chan_def)
  moreover have "SigmaClipper_call sigma_clip sigma_low sigma_up chid (Some data) = Inr (Some out)"
    using out by (simp add: SigmaClipper_call_def)
  ultimately show ?thesis by blast
qed

lemma ZScaleTransformer_mask:
  assumes "nchans data \<le> length contrasts"
  shows "\<exists>out. ZScaleTransformer_call ZScaleInterval contrasts (Some data) = Inr (Some out)
          \<and> (\<forall>r c k. \<not> valid (pix data r c k) \<longrightarrow> pix out r c k = Fin 0)"
proof -
  let ?body = "ZScaleTransformer_body ZScaleInterval contrasts"
  obtain s where s: "for_chans [0..<nchans data] ?body data = Inr (Some s)"
    using for_chans_total [of "[0..<nchans data]" ?body data]
    by (auto simp: ZScaleTransformer_body_def Let_def)
  show ?thesis
    using assms s by (simp add: ZScaleTransformer_call_def Let_def)
qed

lemma ChanDivider_mask:
  assumes "py_index (nchans data) chref = Some j"
    and "logtransf \<and> trim \<longrightarrow> trim_min \<le> 0 \<and> 0 \<le> trim_max"
  shows "\<exists>out. ChanDivider_call chref logtransf False trim trim_min trim_max (Some data) = Inr (Some out)
          \<and> (\<forall>r c k. \<not> valid (pix data r c k) \<longrightarrow> pix out r c k = Fin 0)"
proof -
  let ?ref = "get_chan data j"
  let ?den = "\<lambda>r c. if px_eq0 (?ref r c) then Fin 1 else ?ref r c"
  obtain s' where s': "for_chans [0..<nchans data] (ChanDivider_body chref ?ref ?den) data = Inr (Some s')"
    using ChanDivider_loop_total by blast
  let ?dn = "s'\<lparr>pix := (\<lambda>r c k. if \<not> valid (pix data r c k) then Fin 0 else pix s' r c k)\<rparr>"
  let ?out = "if logtransf then ChanDivider_log trim trim_min trim_max j data ?dn else ?dn"
  have call: "ChanDivider_call chref logtransf False trim trim_min trim_max (Some data) = Inr (Some ?out)"
    using assms(1) s' by (simp add: ChanDivider_call_def Let_def)
  have "pix ?out r c k = Fin 0" if "\<not> valid (pix data r c k)" for r c k
    using that assms(2)
    by (auto simp: ChanDivider_log_def Let_def get_chan_def px_gt_def)
  with call show ?thesis by blast
qed

text \<open>
  C1, amended. For MinMaxNormalizer, Standardizer, Shifter, ZScaleTransformer, for
  SigmaClipper on the channels it processes (all of them when \<^verbatim>\<open>chid=-1\<close>, the selected
  one otherwise) and for ChanDivider without stripping (with \<open>trim_min \<le> 0 \<le> trim_max\<close>
  when the log transform and the trimming are both enabled): on every input on which the
  stage does not fail, the stage returns an array in which every pixel that is invalid in
  the input (zero or not finite) is exactly 0 at the same coordinates. Every channel that
  \<^verbatim>\<open>SigmaClipper\<close> does not select is returned unchanged, pixel for pixel, NaN pixels
  included.
\<close>

theorem mask_restoration:
  "((\<forall>k < nchans data. valid_1d (ny data) (nx data) (get_chan data k) \<noteq> []) \<longrightarrow>
      (\<exists>out. MinMaxNormalizer_call norm_min norm_max (Some data) = Inr (Some out)
          \<and> (\<forall>r c k. k < nchans data \<and> \<not> valid (pix data r c k) \<longrightarrow> pix out r c k = Fin 0)))
   \<and> (length means = nchans data \<and> length sigmas = nchans data \<and> 0 < nchans data \<longrightarrow>
      (\<exists>out. Standardizer_call means sigmas (Some data) = Inr (Some out)
          \<and> (\<forall>r c k. k < nchans data \<and> \<not> valid (pix data r c k) \<longrightarrow> pix out r c k = Fin 0)))
   \<and> (length offsets = nchans data \<and> 0 < nchans data \<longrightarrow>
      (\<exists>out. Shifter_call offsets (Some data) = Inr (Some out)
          \<and> (\<forall>r c k. k < nchans data \<and> \<not> valid (pix data r c k) \<longrightarrow> pix out r c k = Fin 0)))
   \<and> (\<exists>out. SigmaClipper_call sigma_clip sigma_low sigma_up chid (Some data) = Inr (Some out)
          \<and> (\<forall>r c k. k < nchans data \<and> (chid = - 1 \<or> int k = chid) \<and> \<not> valid (pix data r c k)
                \<longrightarrow> pix out r c k = Fin 0)
          \<and> (\<forall>r c k. k < nchans data \<and> chid \<noteq> - 1 \<and> int k \<noteq> chid
                \<longrightarrow> pix out r c k = pix data r c k))
   \<and> (py_index (nchans data) chref = Some j \<and> (logtransf \<and> trim \<longrightarrow> trim_min \<le> 0 \<and> 0 \<le> trim_max) \<longrightarrow>
      (\<exists>out. ChanDivider_call chref logtransf False trim trim_min trim_max (Some data) = Inr (Some out)
          \<and> (\<forall>r c k. k < nchans data \<and> \<not> valid (pix data r c k) \<longrightarrow> pix out r c k = Fin 0)))
   \<and> (nchans data \<le> length contrasts \<longrightarrow>
      (\<exists>out. ZScaleTransformer_call ZScaleInterval contrasts (Some data) = Inr (Some out)
          \<and> (\<forall>r c k. k < nchans data \<and> \<not> valid (pix data r c k) \<longrightarrow> pix out r c k = Fin 0)))"
proof (intro conjI impI)
  assume "\<forall>k < nchans data. valid_1d (ny data) (nx data) (get_chan data k) \<noteq> []"
  then show "\<exists>out. MinMaxNormalizer_call norm_min norm_max (Some data) = Inr (Some out)
          \<and> (\<forall>r c k. k < nchans data \<and> \<not> valid (pix data r c k) \<longrightarrow> pix out r c k = Fin 0)"
    by (rule MinMaxNormalizer_mask)
next
  assume "length means = nchans data \<and> length sigmas = nchans data \<and> 0 < nchans data"
  then show "\<exists>out. Standardizer_call means sigmas (Some data) = Inr (Some out)
          \<and> (\<forall>r c k. k < nchans data \<and> \<not> valid (pix data r c k) \<longrightarrow> pix out r c k = Fin 0)"
    using Standardizer_mask [of means data sigmas] by blast
next
  assume "length offsets = nchans data \<and> 0 < nchans data"
  then show "\<exists>out. Shifter_call offsets (Some data) = Inr (Some out)
          \<and> (\<forall>r c k. k < nchans data \<and> \<not> valid (pix data r c k) \<longrightarrow> pix out r c k = Fin 0)"
    using Shifter_mask [of offsets data] by blast
next
  show "\<exists>out. SigmaClipper_call sigma_clip sigma_low sigma_up chid (Some data) = Inr (Some out)
          \<and> (\<forall>r c k. k < nchans data \<and> (chid = - 1 \<or> int k = chid) \<and> \<not> valid (pix data r c k)
                \<longrightarrow> pix out r c k = Fin 0)
          \<and> (\<forall>r c k. k < nchans data \<and> chid \<noteq> - 1 \<and> int k \<noteq> chid
                \<longrightarrow> pix out r c k = pix data r c k)"
    by (rule SigmaClipper_mask)
next
  assume "py_index (nchans data) chref = Some j \<and> (logtransf \<and> trim \<longrightarrow> trim_min \<le> 0 \<and> 0 \<le> trim_max)"
  then show "\<exists>out. ChanDivider_call chref logtransf False trim trim_min trim_max (Some data) = Inr (Some out)
          \<and> (\<forall>r c k. k < nchans data \<and> \<not> valid (pix data r c k) \<longrightarrow> pix out r c k = Fin 0)"
    using ChanDivider_mask [of data chref j logtransf trim trim_min trim_max] by blast
next
  assume "nchans data \<le> length contrasts"
  then show "\<exists>out. ZScaleTransformer_call ZScaleInterval contrasts (Some data) = Inr (Some out)
          \<and> (\<forall>r c k. k < nchans data \<and> \<not> valid (pix data r c k) \<longrightarrow> pix out r c k = Fin 0)"
    using ZScaleTransformer_mask [of data contrasts ZScaleInterval] by blast
qed

theorem mask_restoration_witness:
  "valid_1d (ny mask_example) (nx mask_example) (get_chan mask_example 0) = [3]
   \<and> valid_1d (ny mask_example) (nx mask_example) (get_chan mask_example 1) = [4]
   \<and> nchans mask_example = 2
   \<and> py_index (nchans mask_example) 0 = Some 0
   \<and> (\<exists>out. MinMaxNormalizer_call 0 1 (Some mask_example) = Inr (Some out)
         \<and> pix out 0 1 0 = Fin 0 \<and> pix out 0 1 1 = Fin 0 \<and> pix out 0 2 0 = Fin 0 \<and> pix out 0 2 1 = Fin 0)
   \<and> (\<exists>out. Standardizer_call [1, 1] [2, 2] (Some mask_example) = Inr (Some out)
         \<and> pix out 0 1 0 = Fin 0 \<and> pix out 0 1 1 = Fin 0 \<and> pix out 0 2 0 = Fin 0 \<and> pix out 0 2 1 = Fin 0)
   \<and> (\<exists>out. Shifter_call [1, 1] (Some mask_example) = Inr (Some out)
         \<and> pix out 0 1 0 = Fin 0 \<and> pix out 0 1 1 = Fin 0 \<and> pix out 0 2 0 = Fin 0 \<and> pix out 0 2 1 = Fin 0)
   \<and> (\<exists>out. SigmaClipper_call no_clip 10 10 (- 1) (Some mask_example) = Inr (Some out)
         \<and> pix out 0 1 0 = Fin 0 \<and> pix out 0 1 1 = Fin 0 \<and> pix out 0 2 0 = Fin 0 \<and> pix out 0 2 1 = Fin 0)
   \<and> (\<exists>out. ChanDivider_call 0 True False True (- 6) 6 (Some mask_example) = Inr (Some out)
         \<and> pix out 0 1 0 = Fin 0 \<and> pix out 0 1 1 = Fin 0 \<and> pix out 0 2 0 = Fin 0 \<and> pix out 0 2 1 = Fin 0)
   \<and> (\<exists>out. ZScaleTransformer_call zscale_id [1 / 4, 1 / 4] (Some mask_example) = Inr (Some out)
         \<and> pix out 0 1 0 = Fin 0 \<and> pix out 0 1 1 = Fin 0 \<and> pix out 0 2 0 = Fin 0 \<and> pix out 0 2 1 = Fin 0)
   \<and> (\<exists>out. SigmaClipper_call no_clip 10 10 0 (Some sigmaclip_example) = Inr (Some out)
         \<and> pix out 0 1 0 = Fin 0 \<and> pix out 0 0 1 = Fin 4 \<and> pix out 0 1 1 = NaN)"
proof -
  have n: "nchans mask_example = 2" "ny mask_example = 1" "nx mask_example = 3"
    by (simp_all add: mask_example_def of_lists_def)
  have v0: "valid_1d 1 3 (get_chan mask_example 0) = [3]"
    by (simp add: mask_example_def of_lists_def valid_1d_def flat_def get_chan_def upt_rec)
  have v1: "valid_1d 1 3 (get_chan mask_example 1) = [4]"
    by (simp add: mask_example_def of_lists_def valid_1d_def flat_def get_chan_def upt_rec)
  have h1: "\<forall>k < nchans mask_example. valid_1d (ny mask_example) (nx mask_example) (get_chan mask_example k) \<noteq> []"
    using v0 v1 by (auto simp: n less_Suc_eq numeral_2_eq_2)
  have h5: "py_index (nchans mask_example) 0 = Some 0"
    by (simp add: n py_index_def)
  have inv: "\<not> valid (pix mask_example 0 1 0)" "\<not> valid (pix mask_example 0 1 1)"
    "\<not> valid (pix mask_example 0 2 0)" "\<not> valid (pix mask_example 0 2 1)"
    by (simp_all add: mask_example_def of_lists_def valid_def px_ne0_def)
  have pick: "\<exists>out. R = Inr (Some out)
         \<and> pix out 0 1 0 = Fin 0 \<and> pix out 0 1 1 = Fin 0 \<and> pix out 0 2 0 = Fin 0 \<and> pix out 0 2 1 = Fin 0"
    if "\<exists>out. R = Inr (Some out)
          \<and> (\<forall>r c k. k < nchans mask_example \<and> \<not> valid (pix mask_example r c k) \<longrightarrow> pix out r c k = Fin 0)"
    for R
  proof -
    from that obtain out where out: "R = Inr (Some out)"
      "\<And>r c k. k < nchans mask_example \<Longrightarrow> \<not> valid (pix mask_example r c k) \<Longrightarrow> pix out r c k = Fin 0"
      by blast
    have "pix out 0 1 0 = Fin 0" "pix out 0 1 1 = Fin 0" "pix out 0 2 0 = Fin 0" "pix out 0 2 1 = Fin 0"
      using inv by (simp_all add: out(2) n)
    with out(1) show ?thesis by blast
  qed
  note th = mask_restoration [where data = mask_example and norm_min = 0 and norm_max = 1
      and means = "[1, 1]" and sigmas = "[2, 2]" and offsets = "[1, 1]"
      and sigma_clip = no_clip and sigma_low = 10 and sigma_up = 10 and chid = "- 1"
      and chref = 0 and j = 0 and logtransf = True and trim = True and trim_min = "- 6" and trim_max = 6
      and contrasts = "[1 / 4, 1 / 4]" and ZScaleInterval = zscale_id]
  have a: "\<exists>out. MinMaxNormalizer_call 0 1 (Some mask_example) = Inr (Some out)
          \<and> (\<forall>r c k. k < nchans mask_example \<and> \<not> valid (pix mask_example r c k) \<longrightarrow> pix out r c k = Fin 0)"
    using th h1 by blast
  have b: "\<exists>out. Standardizer_call [1, 1] [2, 2] (Some mask_example) = Inr (Some out)
          \<and> (\<forall>r c k. k < nchans mask_example \<and> \<not> valid (pix mask_example r c k) \<longrightarrow> pix out r c k = Fin 0)"
    using th by (simp add: n)
  have c: "\<exists>out. Shifter_call [1, 1] (Some mask_example) = Inr (Some out)
          \<and> (\<forall>r c k. k < nchans mask_example \<and> \<not> valid (pix mask_example r c k) \<longrightarrow> pix out r c k = Fin 0)"
    using th by (simp add: n)
  have d: "\<exists>out. SigmaClipper_call no_clip 10 10 (- 1) (Some mask_example) = Inr (Some out)
          \<and> (\<forall>r c k. k < nchans mask_example \<and> \<not> valid (pix mask_example r c k) \<longrightarrow> pix out r c k = Fin 0)"
    using th by simp
  note th0 = mask_restoration [where data = sigmaclip_example and sigma_clip = no_clip
      and sigma_low = 10 and sigma_up = 10 and chid = 0]
  have ns: "nchans sigmaclip_example = 2"
    by (simp add: sigmaclip_example_def of_lists_def)
  from th0 [THEN conjunct2, THEN conjunct2, THEN conjunct2, THEN conjunct1] obtain out0 where
    c0: "SigmaClipper_call no_clip 10 10 0 (Some sigmaclip_example) = Inr (Some out0)"
    and sel: "\<forall>r c k. k < nchans sigmaclip_example \<and> ((0::int) = - 1 \<or> int k = 0)
                \<and> \<not> valid (pix sigmaclip_example r c k) \<longrightarrow> pix out0 r c k = Fin 0"
    and uns: "\<forall>r c k. k < nchans sigmaclip_example \<and> (0::int) \<noteq> - 1 \<and> int k \<noteq> 0
                \<longrightarrow> pix out0 r c k = pix sigmaclip_example r c k"
    by blast
  have "pix out0 0 1 0 = Fin 0"
    by (rule sel [rule_format, where r = 0 and c = 1 and k = 0])
       (simp add: ns sigmaclip_example_def of_lists_def valid_def px_ne0_def)
  moreover have "pix out0 0 0 1 = pix sigmaclip_example 0 0 1"
    by (rule uns [rule_format, where r = 0 and c = 0 and k = 1]) (simp add: ns)
  moreover have "pix out0 0 1 1 = pix sigmaclip_example 0 1 1"
    by (rule uns [rule_format, where r = 0 and c = 1 and k = 1]) (simp add: ns)
  moreover have "pix sigmaclip_example 0 0 1 = Fin 4" "pix sigmaclip_example 0 1 1 = NaN"
    by (simp_all add: sigmaclip_example_def of_lists_def)
  ultimately have g: "\<exists>out. SigmaClipper_call no_clip 10 10 0 (Some sigmaclip_example) = Inr (Some out)
         \<and> pix out 0 1 0 = Fin 0 \<and> pix out 0 0 1 = Fin 4 \<and> pix out 0 1 1 = NaN"
    using c0 by auto
  have e: "\<exists>out. ChanDivider_call 0 True False True (- 6) 6 (Some mask_example) = Inr (Some out)
          \<and> (\<forall>r c k. k < nchans mask_example \<and> \<not> valid (pix mask_example r c k) \<longrightarrow> pix out r c k = Fin 0)"
    using th h5 by simp
  have f: "\<exists>out. ZScaleTransformer_call zscale_id [1 / 4, 1 / 4] (Some mask_example) = Inr (Some out)
          \<and> (\<forall>r c k. k < nchans mask_example \<and> \<not> valid (pix mask_example r c k) \<longrightarrow> pix out r c k = Fin 0)"
    using th by (simp add: n)
  show ?thesis
    using v0 v1 n h5 pick [OF a] pick [OF b] pick [OF c] pick [OF d] pick [OF e] pick [OF f] g by simp
qed

section \<open>BorderMasker and MaskShrinker: the effect on the argument\<close>

lemma write_chan_cells:
  "cells (write_chan h p i ch) p' = (if p' = p then set_chan (cells h p) i ch else cells h p')"
  "next_ref (write_chan h p i ch) = next_ref h"
  by (simp_all add: write_chan_def)

lemma for_heap_writes:
  assumes "p \<noteq> q" "distinct is"
    and step: "\<And>i h. i \<in> S \<Longrightarrow> ny (cells h p) = H \<Longrightarrow> nx (cells h p) = W \<Longrightarrow>
             get_chan (cells h p) i = get_chan t i \<Longrightarrow>
             body i h = (write_chan (write_chan h p i (G i)) q i (G i), None)"
    and "ny (cells h p) = H" "nx (cells h p) = W"
    and "\<forall>i \<in> set is. get_chan (cells h p) i = get_chan t i"
    and "set is \<subseteq> S"
  shows "\<exists>h'. for_heap is body h = (h', None)
           \<and> ny (cells h' p) = H \<and> nx (cells h' p) = W \<and> nchans (cells h' p) = nchans (cells h p)
           \<and> (\<forall>r c k. pix (cells h' p) r c k = (if k \<in> set is then G k r c else pix (cells h p) r c k))
           \<and> (\<forall>r c k. pix (cells h' q) r c k = (if k \<in> set is then G k r c else pix (cells h q) r c k))"
  using assms(2,4,5,6,7)
proof (induction "is" arbitrary: h)
  case Nil
  then show ?case by simp
next
  case (Cons i "is")
  let ?h1 = "write_chan (write_chan h p i (G i)) q i (G i)"
  have b: "body i h = (?h1, None)"
    using step [of i h] Cons.prems by simp
  have cp: "cells ?h1 p = set_chan (cells h p) i (G i)"
    using assms(1) by (simp add: write_chan_cells)
  have cq: "cells ?h1 q = set_chan (cells h q) i (G i)"
    using assms(1) by (simp add: write_chan_cells)
  have same: "get_chan (cells ?h1 p) k = get_chan t k" if "k \<in> set is" for k
  proof -
    from that Cons.prems(1) have "k \<noteq> i" by auto
    then have "get_chan (cells ?h1 p) k = get_chan (cells h p) k"
      by (simp add: cp get_chan_def)
    with that Cons.prems(4) show ?thesis by simp
  qed
  have "\<exists>h'. for_heap is body ?h1 = (h', None)
           \<and> ny (cells h' p) = H \<and> nx (cells h' p) = W \<and> nchans (cells h' p) = nchans (cells ?h1 p)
           \<and> (\<forall>r c k. pix (cells h' p) r c k = (if k \<in> set is then G k r c else pix (cells ?h1 p) r c k))
           \<and> (\<forall>r c k. pix (cells h' q) r c k = (if k \<in> set is then G k r c else pix (cells ?h1 q) r c k))"
  proof (rule Cons.IH)
    show "distinct is" using Cons.prems(1) by simp
    show "ny (cells ?h1 p) = H" using Cons.prems(2) by (simp add: cp)
    show "nx (cells ?h1 p) = W" using Cons.prems(3) by (simp add: cp)
    show "\<forall>i \<in> set is. get_chan (cells ?h1 p) i = get_chan t i" using same by blast
    show "set is \<subseteq> S" using Cons.prems(5) by simp
  qed
  then obtain h' where h': "for_heap is body ?h1 = (h', None)"
    "ny (cells h' p) = H" "nx (cells h' p) = W" "nchans (cells h' p) = nchans (cells ?h1 p)"
    "\<And>r c k. pix (cells h' p) r c k = (if k \<in> set is then G k r c else pix (cells ?h1 p) r c k)"
    "\<And>r c k. pix (cells h' q) r c k = (if k \<in> set is then G k r c else pix (cells ?h1 q) r c k)"
    by blast
  have "for_heap (i # is) body h = (h', None)"
    using b h'(1) by simp
  moreover have "nchans (cells h' p) = nchans (cells h p)"
    using h'(4) by (simp add: cp)
  moreover have "pix (cells h' p) r c k = (if k \<in> set (i # is) then G k r c else pix (cells h p) r c k)" for r c k
    using h'(5) [of r c k] by (simp add: cp)
  moreover have "pix (cells h' q) r c k = (if k \<in> set (i # is) then G k r c else pix (cells h q) r c k)" for r c k
    using h'(6) [of r c k] by (simp add: cq)
  ultimately show ?case using h'(2,3) by blast
qed

lemma np_copy_cells:
  assumes "p \<noteq> next_ref h"
  shows "cells (fst (np_copy h p)) p = cells h p"
    "cells (fst (np_copy h p)) (next_ref h) = cells h p"
    "snd (np_copy h p) = next_ref h"
  using assms by (simp_all add: np_copy_def)

lemma BorderMasker_step:
  assumes "valid_1d (ny t) (nx t) (get_chan t i) \<noteq> []"
    and "ny (cells h p) = ny t" "nx (cells h p) = nx t" "get_chan (cells h p) i = get_chan t i"
  shows "BorderMasker_body mask_fract p q i h
           = (write_chan (write_chan h p i (BorderMasker_g mask_fract t i)) q i (BorderMasker_g mask_fract t i), None)"
proof -
  obtain m where m: "np_min (valid_1d (ny t) (nx t) (get_chan t i)) = Inr m"
    using np_min_Min [OF assms(1)] by blast
  have g: "(\<lambda>r c. if \<not> border_mask mask_fract (ny t) (nx t) r c then Fin 0 else get_chan t i r c)
            = BorderMasker_g mask_fract t i"
    by (intro ext) (simp add: BorderMasker_g_def get_chan_def)
  have rd: "get_chan (cells (write_chan h p i G) p) i = G" for G
    by (simp add: write_chan_cells get_chan_def)
  show ?thesis
    using assms(2,3,4) m by (simp add: BorderMasker_body_def Let_def g rd cong del: if_weak_cong)
qed

lemma BorderMasker_effect:
  assumes "p \<noteq> next_ref h"
    and "\<forall>k < nchans (cells h p). valid_1d (ny (cells h p)) (nx (cells h p)) (get_chan (cells h p) k) \<noteq> []"
  shows "\<exists>h'. BorderMasker_call mask_fract h (Some p) = (h', Inr (Some (next_ref h)))
          \<and> (\<forall>r c k. k < nchans (cells h p) \<longrightarrow>
                pix (cells h' p) r c k = BorderMasker_g mask_fract (cells h p) k r c
              \<and> pix (cells h' (next_ref h)) r c k = pix (cells h' p) r c k)"
proof -
  let ?t = "cells h p"
  let ?q = "next_ref h"
  let ?h1 = "fst (np_copy h p)"
  let ?body = "BorderMasker_body mask_fract p ?q"
  note cp = np_copy_cells [OF assms(1)]
  have "\<exists>h'. for_heap [0..<nchans ?t] ?body ?h1 = (h', None)
           \<and> ny (cells h' p) = ny ?t \<and> nx (cells h' p) = nx ?t \<and> nchans (cells h' p) = nchans (cells ?h1 p)
           \<and> (\<forall>r c k. pix (cells h' p) r c k =
                 (if k \<in> set [0..<nchans ?t] then BorderMasker_g mask_fract ?t k r c else pix (cells ?h1 p) r c k))
           \<and> (\<forall>r c k. pix (cells h' ?q) r c k =
                 (if k \<in> set [0..<nchans ?t] then BorderMasker_g mask_fract ?t k r c else pix (cells ?h1 ?q) r c k))"
  proof (rule for_heap_writes [where S = "{k. k < nchans ?t}" and t = ?t])
    show "p \<noteq> ?q" by (rule assms(1))
    show "distinct [0..<nchans ?t]" by simp
    show "ny (cells ?h1 p) = ny ?t" "nx (cells ?h1 p) = nx ?t" by (simp_all add: cp)
    show "\<forall>i \<in> set [0..<nchans ?t]. get_chan (cells ?h1 p) i = get_chan ?t i" by (simp add: cp)
    show "set [0..<nchans ?t] \<subseteq> {k. k < nchans ?t}" by auto
  next
    fix i and h0 :: heap
    assume "i \<in> {k. k < nchans ?t}" "ny (cells h0 p) = ny ?t" "nx (cells h0 p) = nx ?t"
      "get_chan (cells h0 p) i = get_chan ?t i"
    then show "?body i h0 = (write_chan (write_chan h0 p i (BorderMasker_g mask_fract ?t i)) ?q i
                   (BorderMasker_g mask_fract ?t i), None)"
      using assms(2) by (intro BorderMasker_step) auto
  qed
  then obtain h' where h': "for_heap [0..<nchans ?t] ?body ?h1 = (h', None)"
    "\<And>r c k. pix (cells h' p) r c k =
                 (if k \<in> set [0..<nchans ?t] then BorderMasker_g mask_fract ?t k r c else pix (cells ?h1 p) r c k)"
    "\<And>r c k. pix (cells h' ?q) r c k =
                 (if k \<in> set [0..<nchans ?t] then BorderMasker_g mask_fract ?t k r c else pix (cells ?h1 ?q) r c k)"
    by blast
  have "BorderMasker_call mask_fract h (Some p) = (h', Inr (Some ?q))"
    using h'(1) cp by (simp add: BorderMasker_call_def split_beta Let_def)
  then show ?thesis
    using h'(2,3) by auto
qed

lemma MaskShrinker_step:
  assumes "ny (cells h p) = ny t" "nx (cells h p) = nx t" "get_chan (cells h p) i = get_chan t i"
  shows "MaskShrinker_body erode p q i h
           = (write_chan (write_chan h p i (MaskShrinker_g erode t i)) q i (MaskShrinker_g erode t i), None)"
proof -
  have px: "pix (cells h p) r c i = pix t r c i" for r c
    using assms(3) by (simp add: get_chan_def fun_eq_iff)
  show ?thesis
    using assms(1,2)
    by (simp add: MaskShrinker_body_def Let_def MaskShrinker_g_def write_chan_cells px get_chan_def
        cong del: if_weak_cong)
qed

lemma MaskShrinker_effect:
  assumes "p \<noteq> next_ref h"
  shows "\<exists>h'. MaskShrinker_call erode h (Some p) = (h', Inr (Some (next_ref h)))
          \<and> (\<forall>r c k. k < nchans (cells h p) \<longrightarrow>
                pix (cells h' p) r c k = MaskShrinker_g erode (cells h p) k r c
              \<and> pix (cells h' (next_ref h)) r c k = pix (cells h' p) r c k)"
proof -
  let ?t = "cells h p"
  let ?q = "next_ref h"
  let ?h1 = "fst (np_copy h p)"
  let ?body = "MaskShrinker_body erode p ?q"
  note cp = np_copy_cells [OF assms(1)]
  have "\<exists>h'. for_heap [0..<nchans ?t] ?body ?h1 = (h', None)
           \<and> ny (cells h' p) = ny ?t \<and> nx (cells h' p) = nx ?t \<and> nchans (cells h' p) = nchans (cells ?h1 p)
           \<and> (\<forall>r c k. pix (cells h' p) r c k =
                 (if k \<in> set [0..<nchans ?t] then MaskShrinker_g erode ?t k r c else pix (cells ?h1 p) r c k))
           \<and> (\<forall>r c k. pix (cells h' ?q) r c k =
                 (if k \<in> set [0..<nchans ?t] then MaskShrinker_g erode ?t k r c else pix (cells ?h1 ?q) r c k))"
  proof (rule for_heap_writes [where S = UNIV and t = ?t])
    show "p \<noteq> ?q" by (rule assms(1))
    show "distinct [0..<nchans ?t]" by simp
    show "ny (cells ?h1 p) = ny ?t" "nx (cells ?h1 p) = nx ?t" by (simp_all add: cp)
    show "\<forall>i \<in> set [0..<nchans ?t]. get_chan (cells ?h1 p) i = get_chan ?t i" by (simp add: cp)
    show "set [0..<nchans ?t] \<subseteq> UNIV" by simp
  next
    fix i and h0 :: heap
    assume "ny (cells h0 p) = ny ?t" "nx (cells h0 p) = nx ?t" "get_chan (cells h0 p) i = get_chan ?t i"
    then show "?body i h0 = (write_chan (write_chan h0 p i (MaskShrinker_g erode ?t i)) ?q i
                   (MaskShrinker_g erode ?t i), None)"
      by (rule MaskShrinker_step)
  qed
  then obtain h' where h': "for_heap [0..<nchans ?t] ?body ?h1 = (h', None)"
    "\<And>r c k. pix (cells h' p) r c k =
                 (if k \<in> set [0..<nchans ?t] then MaskShrinker_g erode ?t k r c else pix (cells ?h1 p) r c k)"
    "\<And>r c k. pix (cells h' ?q) r c k =
                 (if k \<in> set [0..<nchans ?t] then MaskShrinker_g erode ?t k r c else pix (cells ?h1 ?q) r c k)"
    by blast
  have "MaskShrinker_call erode h (Some p) = (h', Inr (Some ?q))"
    using h'(1) cp by (simp add: MaskShrinker_call_def split_beta Let_def)
  then show ?thesis
    using h'(2,3) by auto
qed


text \<open>
  C9. \<^verbatim>\<open>BorderMasker\<close> and \<^verbatim>\<open>MaskShrinker\<close> change the array they are given. After a
  call on the array under reference \<open>p\<close> (with, for \<^verbatim>\<open>BorderMasker\<close>, a valid pixel in
  every channel, so that the call returns), the array under \<open>p\<close> itself holds 0 at
  every pixel outside the retained box, respectively at every pixel whose eroded mask is
  0, and its other pixels as before; the returned array is a fresh one with the same
  pixels.
\<close>

theorem in_place_masking:
  assumes "p < next_ref h"
  shows "((\<forall>k < nchans (cells h p).
            valid_1d (ny (cells h p)) (nx (cells h p)) (get_chan (cells h p) k) \<noteq> []) \<longrightarrow>
          (\<exists>h'. BorderMasker_call mask_fract h (Some p) = (h', Inr (Some (next_ref h)))
             \<and> (\<forall>r c k. k < nchans (cells h p) \<longrightarrow>
                   pix (cells h' p) r c k =
                     (if border_mask mask_fract (ny (cells h p)) (nx (cells h p)) r c
                      then pix (cells h p) r c k else Fin 0)
                 \<and> pix (cells h' (next_ref h)) r c k = pix (cells h' p) r c k)))
       \<and> (\<exists>h'. MaskShrinker_call erode h (Some p) = (h', Inr (Some (next_ref h)))
             \<and> (\<forall>r c k. k < nchans (cells h p) \<longrightarrow>
                   pix (cells h' p) r c k =
                     (if erode (ny (cells h p)) (nx (cells h p))
                           (\<lambda>r c. if valid (pix (cells h p) r c k) then 1 else 0) r c = 0
                      then Fin 0 else pix (cells h p) r c k)
                 \<and> pix (cells h' (next_ref h)) r c k = pix (cells h' p) r c k))"
proof -
  from assms have ne: "p \<noteq> next_ref h" by simp
  have sw: "(if \<not> b then x else y) = (if b then y else x)" for b and x y :: px
    by simp
  have border: "\<exists>h'. BorderMasker_call mask_fract h (Some p) = (h', Inr (Some (next_ref h)))
             \<and> (\<forall>r c k. k < nchans (cells h p) \<longrightarrow>
                   pix (cells h' p) r c k =
                     (if border_mask mask_fract (ny (cells h p)) (nx (cells h p)) r c
                      then pix (cells h p) r c k else Fin 0)
                 \<and> pix (cells h' (next_ref h)) r c k = pix (cells h' p) r c k)"
    if "\<forall>k < nchans (cells h p).
            valid_1d (ny (cells h p)) (nx (cells h p)) (get_chan (cells h p) k) \<noteq> []"
    using BorderMasker_effect [OF ne that, of mask_fract] unfolding BorderMasker_g_def sw .
  have shrink: "\<exists>h'. MaskShrinker_call erode h (Some p) = (h', Inr (Some (next_ref h)))
             \<and> (\<forall>r c k. k < nchans (cells h p) \<longrightarrow>
                   pix (cells h' p) r c k =
                     (if erode (ny (cells h p)) (nx (cells h p))
                           (\<lambda>r c. if valid (pix (cells h p) r c k) then 1 else 0) r c = 0
                      then Fin 0 else pix (cells h p) r c k)
                 \<and> pix (cells h' (next_ref h)) r c k = pix (cells h' p) r c k)"
    using MaskShrinker_effect [OF ne, of erode] unfolding MaskShrinker_g_def .
  from border shrink show ?thesis by blast
qed

lemma ones_heap_simps:
  "next_ref ones_heap = 1" "ny (cells ones_heap p) = 4" "nx (cells ones_heap p) = 4"
  "nchans (cells ones_heap p) = 1" "pix (cells ones_heap p) r c k = Fin 1"
  by (simp_all add: ones_heap_def)

theorem in_place_masking_witness:
  "pix (cells ones_heap 0) 0 0 0 = Fin 1
   \<and> (\<exists>h'. BorderMasker_call (1 / 2) ones_heap (Some 0) = (h', Inr (Some 1))
         \<and> pix (cells h' 0) 0 0 0 = Fin 0 \<and> pix (cells h' 0) 1 1 0 = Fin 1
         \<and> pix (cells h' 1) 0 0 0 = Fin 0)
   \<and> (\<exists>h'. MaskShrinker_call erode_first_row ones_heap (Some 0) = (h', Inr (Some 1))
         \<and> pix (cells h' 0) 0 0 0 = Fin 0 \<and> pix (cells h' 0) 1 0 0 = Fin 1
         \<and> pix (cells h' 1) 0 0 0 = Fin 0)"
proof -
  have lt: "0 < next_ref ones_heap" by (simp add: ones_heap_simps)
  have "(1::real) \<in> set (valid_1d 4 4 (get_chan (cells ones_heap 0) 0))"
    unfolding valid_1d_mem by (rule exI [of _ 0], simp, rule exI [of _ 0]) (simp add: get_chan_def ones_heap_simps)
  then have nonempty: "\<forall>k < nchans (cells ones_heap 0).
      valid_1d (ny (cells ones_heap 0)) (nx (cells ones_heap 0)) (get_chan (cells ones_heap 0) k) \<noteq> []"
    by (auto simp: ones_heap_simps)
  note th = in_place_masking [OF lt, of "1 / 2" erode_first_row]
  from th nonempty obtain h1 where h1:
    "BorderMasker_call (1 / 2) ones_heap (Some 0) = (h1, Inr (Some (next_ref ones_heap)))"
    "\<And>r c k. k < nchans (cells ones_heap 0) \<Longrightarrow>
        pix (cells h1 0) r c k =
          (if border_mask (1 / 2) (ny (cells ones_heap 0)) (nx (cells ones_heap 0)) r c
           then pix (cells ones_heap 0) r c k else Fin 0)
        \<and> pix (cells h1 (next_ref ones_heap)) r c k = pix (cells h1 0) r c k"
    by blast
  from th obtain h2 where h2:
    "MaskShrinker_call erode_first_row ones_heap (Some 0) = (h2, Inr (Some (next_ref ones_heap)))"
    "\<And>r c k. k < nchans (cells ones_heap 0) \<Longrightarrow>
        pix (cells h2 0) r c k =
          (if erode_first_row (ny (cells ones_heap 0)) (nx (cells ones_heap 0))
                (\<lambda>r c. if valid (pix (cells ones_heap 0) r c k) then 1 else 0) r c = 0
           then Fin 0 else pix (cells ones_heap 0) r c k)
        \<and> pix (cells h2 (next_ref ones_heap)) r c k = pix (cells h2 0) r c k"
    by blast
  have box: "\<not> border_mask (1 / 2) 4 4 0 0" "border_mask (1 / 2) 4 4 1 1"
    by (simp_all add: border_mask_def py_int_def in_slice_def slice_bound_def)
  have b: "pix (cells h1 0) 0 0 0 = Fin 0" "pix (cells h1 0) 1 1 0 = Fin 1" "pix (cells h1 1) 0 0 0 = Fin 0"
    using h1(2) [of 0 0 0] h1(2) [of 0 1 1] box by (simp_all add: ones_heap_simps)
  have m: "pix (cells h2 0) 0 0 0 = Fin 0" "pix (cells h2 0) 1 0 0 = Fin 1" "pix (cells h2 1) 0 0 0 = Fin 0"
    using h2(2) [of 0 0 0] h2(2) [of 0 1 0]
    by (simp_all add: ones_heap_simps erode_first_row_def valid_def px_ne0_def)
  show ?thesis
    using h1(1) h2(1) b m by (simp add: ones_heap_simps)
qed

end
